theory Spec2Isabelle
  imports Main "HOL-Library.Word" "HOL-Library.Char_ord" "HOL-Library.List_Lexorder"
    "HOL-Library.AList"
begin

unbundle bit_operations_syntax

section \<open>Package cerrors: error values and error codes\<close>

text \<open>
  A Go \<^verbatim>\<open>error\<close> that is \<^verbatim>\<open>nil\<close> is \<open>None\<close>; every other error is a value of
  the datatype below. \<open>Plain\<close> is an error made by a library (os, encoding/json,
  net/http, crypto/rand); \<open>AppError\<close> is the struct of the same name with its fields
  Code, Message and Err; \<open>Wrapped\<close> is the result of \<^verbatim>\<open>cerrors.Wrap(err, msg)\<close> and
  \<open>Detailed\<close> the result of \<^verbatim>\<open>cerrors.WithDetail(err, msg)\<close> on a non-nil error.
\<close>

type_synonym ErrorCode = string

definition CodeNotFound :: ErrorCode where "CodeNotFound = ''NOT_FOUND''"
definition CodeInvalidInput :: ErrorCode where "CodeInvalidInput = ''INVALID_INPUT''"
definition CodeUnauthorized :: ErrorCode where "CodeUnauthorized = ''UNAUTHORIZED''"
definition CodeForbidden :: ErrorCode where "CodeForbidden = ''FORBIDDEN''"
definition CodeConflict :: ErrorCode where "CodeConflict = ''CONFLICT''"
definition CodeInternalServer :: ErrorCode where "CodeInternalServer = ''INTERNAL_SERVER''"
definition CodeServiceUnavailable :: ErrorCode where
  "CodeServiceUnavailable = ''SERVICE_UNAVAILABLE''"
definition CodeTimeout :: ErrorCode where "CodeTimeout = ''TIMEOUT''"
definition CodeNetworkError :: ErrorCode where "CodeNetworkError = ''NETWORK_ERROR''"

datatype error =
    Plain string
  | AppError ErrorCode string "error option"
  | Wrapped error string
  | Detailed error string

definition NewAppError :: "ErrorCode \<Rightarrow> string \<Rightarrow> error option \<Rightarrow> error" where
  "NewAppError code message err = AppError code message err"

definition Wrap :: "error \<Rightarrow> string \<Rightarrow> error" where
  "Wrap err msg = Wrapped err msg"

text \<open>\<^verbatim>\<open>WithDetail\<close> of the nil error is the nil error.\<close>

definition WithDetail :: "error option \<Rightarrow> string \<Rightarrow> error option" where
  "WithDetail err msg = (case err of None \<Rightarrow> None | Some e \<Rightarrow> Some (Detailed e msg))"

text \<open>
  \<^verbatim>\<open>As(err, &appErr)\<close> walks the chain of wrappers from the outside and stops at the
  first \<^verbatim>\<open>*AppError\<close>; it yields its Code, Message and Err.
\<close>

fun As_AppError :: "error \<Rightarrow> (ErrorCode \<times> string \<times> error option) option" where
  "As_AppError (AppError code message err) = Some (code, message, err)"
| "As_AppError (Wrapped e msg) = As_AppError e"
| "As_AppError (Detailed e msg) = As_AppError e"
| "As_AppError (Plain msg) = None"

definition IsAppError :: "error \<Rightarrow> ErrorCode \<Rightarrow> bool" where
  "IsAppError err code =
     (case As_AppError err of Some (c, m, e) \<Rightarrow> c = code | None \<Rightarrow> False)"

definition GetErrorCode :: "error \<Rightarrow> ErrorCode" where
  "GetErrorCode err = (case As_AppError err of Some (c, m, e) \<Rightarrow> c | None \<Rightarrow> [])"


section \<open>Package strings: TrimSpace\<close>

text \<open>
  A Go string is a sequence of bytes, here a \<open>string\<close>. \<^verbatim>\<open>strings.TrimSpace\<close> removes
  the leading and the trailing white space, as Unicode defines it, reading the bytes as
  UTF-8: the code points U+0009 to U+000D, U+0020, U+0085, U+00A0, U+1680, U+2000 to
  U+200A, U+2028, U+2029, U+202F, U+205F and U+3000. \<open>whiteSpace\<close> lists their
  encodings; a byte sequence that is not the encoding of one of them is no white space.
\<close>

definition whiteSpace :: "string list" where
  "whiteSpace =
     [[CHR 0x09], [CHR 0x0A], [CHR 0x0B], [CHR 0x0C], [CHR 0x0D], [CHR 0x20],
      [CHR 0xC2, CHR 0x85], [CHR 0xC2, CHR 0xA0],
      [CHR 0xE1, CHR 0x9A, CHR 0x80],
      [CHR 0xE2, CHR 0x80, CHR 0x80], [CHR 0xE2, CHR 0x80, CHR 0x81],
      [CHR 0xE2, CHR 0x80, CHR 0x82], [CHR 0xE2, CHR 0x80, CHR 0x83],
      [CHR 0xE2, CHR 0x80, CHR 0x84], [CHR 0xE2, CHR 0x80, CHR 0x85],
      [CHR 0xE2, CHR 0x80, CHR 0x86], [CHR 0xE2, CHR 0x80, CHR 0x87],
      [CHR 0xE2, CHR 0x80, CHR 0x88], [CHR 0xE2, CHR 0x80, CHR 0x89],
      [CHR 0xE2, CHR 0x80, CHR 0x8A],
      [CHR 0xE2, CHR 0x80, CHR 0xA8], [CHR 0xE2, CHR 0x80, CHR 0xA9],
      [CHR 0xE2, CHR 0x80, CHR 0xAF],
      [CHR 0xE2, CHR 0x81, CHR 0x9F],
      [CHR 0xE3, CHR 0x80, CHR 0x80]]"

text \<open>The width in bytes of the white space rune a string starts with, 0 when it starts with none.\<close>

definition leadingSpace :: "string \<Rightarrow> nat" where
  "leadingSpace s =
     (case find (\<lambda>p. take (length p) s = p) whiteSpace of
        None \<Rightarrow> 0 | Some p \<Rightarrow> length p)"

text \<open>The same for the rune a string ends with.\<close>

definition trailingSpace :: "string \<Rightarrow> nat" where
  "trailingSpace s =
     (case find (\<lambda>p. length p \<le> length s \<and> drop (length s - length p) s = p) whiteSpace of
        None \<Rightarrow> 0 | Some p \<Rightarrow> length p)"

function TrimLeft :: "string \<Rightarrow> string" where
  "TrimLeft s =
     (if leadingSpace s = 0 \<or> length s < leadingSpace s then s
      else TrimLeft (drop (leadingSpace s) s))"
  by pat_completeness auto
termination
  by (relation "measure length") auto

function TrimRight :: "string \<Rightarrow> string" where
  "TrimRight s =
     (if trailingSpace s = 0 \<or> length s < trailingSpace s then s
      else TrimRight (take (length s - trailingSpace s) s))"
  by pat_completeness auto
termination
  by (relation "measure length") auto

definition TrimSpace :: "string \<Rightarrow> string" where
  "TrimSpace s = TrimRight (TrimLeft s)"


section \<open>Package model: SessionID\<close>

record SessionID =
  id_value :: string

text \<open>
  The pattern \<^verbatim>\<open>^[a-fA-F0-9]{32,128}$\<close>: the whole text is 32 to 128 characters of the
  class. A byte outside ASCII never decodes to a rune of the class.
\<close>

definition hexClass :: "char \<Rightarrow> bool" where
  "hexClass c =
     ((CHR ''a'' \<le> c \<and> c \<le> CHR ''f'') \<or> (CHR ''A'' \<le> c \<and> c \<le> CHR ''F'')
      \<or> (CHR ''0'' \<le> c \<and> c \<le> CHR ''9''))"

definition sessionIDPattern_MatchString :: "string \<Rightarrow> bool" where
  "sessionIDPattern_MatchString s =
     (32 \<le> length s \<and> length s \<le> 128 \<and> list_all hexClass s)"

definition isValidSessionIDFormat :: "string \<Rightarrow> bool" where
  "isValidSessionIDFormat ident = sessionIDPattern_MatchString ident"

definition NewSessionID :: "string \<Rightarrow> error + SessionID" where
  "NewSessionID v =
     (if v = [] then
        Inl (NewAppError CodeInvalidInput ''session ID cannot be empty'' None)
      else
        let normalized = TrimSpace v in
        if \<not> isValidSessionIDFormat normalized then
          Inl (NewAppError CodeInvalidInput ''invalid session ID format''
                 (WithDetail None ''expected hexadecimal string (32-128 characters)''))
        else Inr \<lparr>id_value = normalized\<rparr>)"

definition SessionID_String :: "SessionID \<Rightarrow> string" where
  "SessionID_String s = id_value s"

definition SessionID_IsValid :: "SessionID \<Rightarrow> bool" where
  "SessionID_IsValid s = (id_value s \<noteq> [] \<and> isValidSessionIDFormat (id_value s))"



text \<open>
  \<^verbatim>\<open>hex.EncodeToString\<close>: two lower-case digits for each byte, the high half first.
\<close>

definition hextable :: string where
  "hextable = ''0123456789abcdef''"

definition hex_EncodeToString :: "8 word list \<Rightarrow> string" where
  "hex_EncodeToString src =
     concat (map (\<lambda>v. [hextable ! unat (drop_bit 4 v), hextable ! unat (v AND 0x0F)]) src)"

text \<open>
  The random source is an input of the model: \<open>rand_Read n\<close> is the \<open>n\<close> bytes that
  \<^verbatim>\<open>rand.Read\<close> puts into a buffer of \<open>n\<close> bytes, or \<open>None\<close> when it returns an error.
  The buffer has \<open>n\<close> bytes whatever the source gives: it starts as zeros.
\<close>

definition GenerateSessionID :: "(nat \<Rightarrow> 8 word list option) \<Rightarrow> error + SessionID" where
  "GenerateSessionID rand_Read =
     (case rand_Read 32 of
        None \<Rightarrow> Inl (Wrap (Plain ''rand.Read'') ''failed to generate random session ID'')
      | Some bs \<Rightarrow>
          let bytes = take 32 (bs @ replicate 32 0) in
          Inr \<lparr>id_value = hex_EncodeToString bytes\<rparr>)"


section \<open>Package entity: Session\<close>

text \<open>
  An instant (\<^verbatim>\<open>time.Time\<close>) is the number of nanoseconds since the Unix epoch, a
  duration (\<^verbatim>\<open>time.Duration\<close>) a number of nanoseconds; both are unbounded integers
  here, that is, instants stay inside the range \<^verbatim>\<open>time.Time\<close> represents. Every
  reading of the clock (\<^verbatim>\<open>time.Now()\<close>) is an argument of the function that reads it.
\<close>

type_synonym Time = int
type_synonym Duration = int

definition Second :: Duration where "Second = 1000000000"
definition Hour :: Duration where "Hour = 3600 * Second"

definition Time_Add :: "Time \<Rightarrow> Duration \<Rightarrow> Time" where
  "Time_Add t d = t + d"

definition Time_After :: "Time \<Rightarrow> Time \<Rightarrow> bool" where
  "Time_After t u = (t > u)"

definition Time_Before :: "Time \<Rightarrow> Time \<Rightarrow> bool" where
  "Time_Before t u = (t < u)"

text \<open>\<^verbatim>\<open>t.Unix()\<close>: the whole seconds since the epoch, rounded down.\<close>

definition Time_Unix :: "Time \<Rightarrow> int" where
  "Time_Unix t = t div Second"

text \<open>\<^verbatim>\<open>time.Unix(sec, 0)\<close>.\<close>

definition time_Unix :: "int \<Rightarrow> Time" where
  "time_Unix sec = sec * Second"

record Session =
  ident :: SessionID
  username :: string
  token :: string
  expiresAt :: Time
  createdAt :: Time
  lastUsed :: Time

definition NewSession :: "Time \<Rightarrow> SessionID \<Rightarrow> string \<Rightarrow> string \<Rightarrow> Time \<Rightarrow> Session" where
  "NewSession now i u t e =
     \<lparr>ident = i, username = u, token = t, expiresAt = e, createdAt = now, lastUsed = now\<rparr>"

definition NewSessionWithDuration ::
  "Time \<Rightarrow> SessionID \<Rightarrow> string \<Rightarrow> string \<Rightarrow> Duration \<Rightarrow> Session" where
  "NewSessionWithDuration now i u t duration =
     \<lparr>ident = i, username = u, token = t, expiresAt = Time_Add now duration,
      createdAt = now, lastUsed = now\<rparr>"

definition IsExpired :: "Time \<Rightarrow> Session \<Rightarrow> bool" where
  "IsExpired now s = Time_After now (expiresAt s)"

definition Session_IsValid :: "Time \<Rightarrow> Session \<Rightarrow> bool" where
  "Session_IsValid now s =
     (SessionID_IsValid (ident s) \<and> username s \<noteq> [] \<and> token s \<noteq> [] \<and> \<not> IsExpired now s)"

definition UpdateLastUsed :: "Time \<Rightarrow> Session \<Rightarrow> Session" where
  "UpdateLastUsed now s = s\<lparr>lastUsed := now\<rparr>"

definition UpdateLastUsedAt :: "Time \<Rightarrow> Session \<Rightarrow> Session" where
  "UpdateLastUsedAt t s = s\<lparr>lastUsed := t\<rparr>"

definition Refresh :: "Time \<Rightarrow> Time \<Rightarrow> Duration \<Rightarrow> Session \<Rightarrow> Session" where
  "Refresh now now' duration s =
     UpdateLastUsed now' (s\<lparr>expiresAt := Time_Add now duration\<rparr>)"

text \<open>
  \<open>RefreshFromNow\<close> reads the clock twice: \<open>now\<close> is the reading of its first line,
  \<open>now'\<close> the later reading inside \<^verbatim>\<open>UpdateLastUsed\<close>.
\<close>

definition RefreshFromNow :: "Time \<Rightarrow> Time \<Rightarrow> Duration \<Rightarrow> Session \<Rightarrow> Session" where
  "RefreshFromNow now now' duration s =
     UpdateLastUsed now'
       (if Time_Before (expiresAt s) now then s\<lparr>expiresAt := Time_Add now duration\<rparr>
        else s\<lparr>expiresAt := Time_Add (expiresAt s) duration\<rparr>)"


section \<open>The file system under the configuration directory\<close>

text \<open>
  The repository touches three kinds of path: the directory \<^verbatim>\<open>sessions\<close>, a file in
  it named by a session id, and the file \<^verbatim>\<open>current_session\<close>. An entry of the
  directory is a regular file, with its bytes and its permission bits, or something
  else (a subdirectory, a link, a device). The entries are kept as an association
  list read through \<open>map_of\<close>.
\<close>

type_synonym FileMode = "32 word"

text \<open>The permission bits the code names, written in octal there.\<close>

definition mode_0600 :: FileMode where "mode_0600 = 0x180"
definition mode_0666 :: FileMode where "mode_0666 = 0x1B6"

record regfile =
  content :: string
  perm :: FileMode

datatype dirent = RegularFile regfile | NotRegular

record filesystem =
  sessionsDir :: "(string \<times> dirent) list option"
  currentFile :: "regfile option"

datatype path = SessionsDir | SessionFile string | CurrentSessionFile

datatype os_op =
  OpStat | OpMkdirAll | OpCreate | OpWrite | OpChmod | OpOpen | OpRead | OpRemove
  | OpReadDir | OpReadFile | OpWriteFile

text \<open>
  What the code cannot decide is an input of the model: \<open>fails op p\<close> says that the
  system call \<open>op\<close> on the path \<open>p\<close> returns an error other than "does not exist"
  (permission denied, disk full, not the owner, ...); \<open>umask\<close> is the process's file
  mode mask; \<open>json_Encode\<close> gives the bytes \<^verbatim>\<open>json.Encoder.Encode\<close> writes for a
  record and \<open>json_Decode\<close> the record \<^verbatim>\<open>json.Decoder.Decode\<close> reads from bytes
  (\<open>None\<close> when it returns an error).
\<close>

record SessionData =
  data_ID :: string
  data_Username :: string
  data_Token :: string
  data_ExpiresAt :: int
  data_CreatedAt :: int
  data_LastUsed :: int

record os_env =
  fails :: "os_op \<Rightarrow> path \<Rightarrow> bool"
  umask :: FileMode
  json_Encode :: "SessionData \<Rightarrow> string"
  json_Decode :: "string \<Rightarrow> SessionData option"

definition lookup :: "filesystem \<Rightarrow> path \<Rightarrow> dirent option" where
  "lookup fs p =
     (case p of
        SessionsDir \<Rightarrow> (case sessionsDir fs of None \<Rightarrow> None | Some es \<Rightarrow> Some NotRegular)
      | SessionFile name \<Rightarrow>
          (case sessionsDir fs of None \<Rightarrow> None | Some es \<Rightarrow> map_of es name)
      | CurrentSessionFile \<Rightarrow>
          (case currentFile fs of None \<Rightarrow> None | Some f \<Rightarrow> Some (RegularFile f)))"

datatype stat_result = StatOK | StatNotExist | StatError

definition os_Stat :: "os_env \<Rightarrow> path \<Rightarrow> filesystem \<Rightarrow> stat_result" where
  "os_Stat env p fs =
     (if fails env OpStat p then StatError
      else if lookup fs p = None then StatNotExist else StatOK)"

text \<open>\<^verbatim>\<open>os.MkdirAll\<close> of the directory \<^verbatim>\<open>sessions\<close>: nothing to do when it is there.\<close>

definition os_MkdirAll :: "os_env \<Rightarrow> filesystem \<Rightarrow> error option \<times> filesystem" where
  "os_MkdirAll env fs =
     (if fails env OpMkdirAll SessionsDir then (Some (Plain ''mkdir''), fs)
      else (None, case sessionsDir fs of None \<Rightarrow> fs\<lparr>sessionsDir := Some []\<rparr> | Some es \<Rightarrow> fs))"

text \<open>
  \<^verbatim>\<open>os.Create\<close>: a new file gets the mode 0666 less the mask; a file that is there is
  emptied and keeps its mode; the directory itself and an entry that is no regular
  file cannot be created.
\<close>

definition os_Create :: "os_env \<Rightarrow> path \<Rightarrow> filesystem \<Rightarrow> error + filesystem" where
  "os_Create env p fs =
     (case p of
        SessionFile name \<Rightarrow>
          (case sessionsDir fs of
             None \<Rightarrow> Inl (Plain ''open: no such file or directory'')
           | Some es \<Rightarrow>
               if fails env OpCreate p then Inl (Plain ''open'')
               else (case map_of es name of
                       None \<Rightarrow>
                         Inr (fs\<lparr>sessionsDir := Some (AList.update name
                                (RegularFile \<lparr>content = [], perm = mode_0666 AND NOT (umask env)\<rparr>) es)\<rparr>)
                     | Some (RegularFile f) \<Rightarrow>
                         Inr (fs\<lparr>sessionsDir := Some (AList.update name
                                (RegularFile (f\<lparr>content := []\<rparr>)) es)\<rparr>)
                     | Some NotRegular \<Rightarrow> Inl (Plain ''open: is a directory'')))
      | _ \<Rightarrow> Inl (Plain ''open: is a directory''))"

text \<open>Writing bytes to the file just created: all of them, or an error.\<close>

definition os_Write :: "os_env \<Rightarrow> path \<Rightarrow> string \<Rightarrow> filesystem \<Rightarrow> error + filesystem" where
  "os_Write env p bytes fs =
     (case p of
        SessionFile name \<Rightarrow>
          (case sessionsDir fs of
             None \<Rightarrow> Inl (Plain ''write'')
           | Some es \<Rightarrow>
               if fails env OpWrite p then Inl (Plain ''write'')
               else (case map_of es name of
                       Some (RegularFile f) \<Rightarrow>
                         Inr (fs\<lparr>sessionsDir := Some (AList.update name
                                (RegularFile (f\<lparr>content := content f @ bytes\<rparr>)) es)\<rparr>)
                     | _ \<Rightarrow> Inl (Plain ''write'')))
      | _ \<Rightarrow> Inl (Plain ''write''))"

definition os_Chmod :: "os_env \<Rightarrow> path \<Rightarrow> FileMode \<Rightarrow> filesystem \<Rightarrow> error + filesystem" where
  "os_Chmod env p mode fs =
     (case p of
        SessionFile name \<Rightarrow>
          (case sessionsDir fs of
             None \<Rightarrow> Inl (Plain ''chmod: no such file or directory'')
           | Some es \<Rightarrow>
               if fails env OpChmod p then Inl (Plain ''chmod'')
               else (case map_of es name of
                       Some (RegularFile f) \<Rightarrow>
                         Inr (fs\<lparr>sessionsDir := Some (AList.update name
                                (RegularFile (f\<lparr>perm := mode\<rparr>)) es)\<rparr>)
                     | Some NotRegular \<Rightarrow> Inr fs
                     | None \<Rightarrow> Inl (Plain ''chmod: no such file or directory'')))
      | _ \<Rightarrow> if fails env OpChmod p then Inl (Plain ''chmod'') else Inr fs)"

text \<open>
  Opening a file and decoding its bytes. A directory opens, but reading it fails.
\<close>

definition os_Open :: "os_env \<Rightarrow> path \<Rightarrow> filesystem \<Rightarrow> error + dirent" where
  "os_Open env p fs =
     (if fails env OpOpen p then Inl (Plain ''open'')
      else (case lookup fs p of
              None \<Rightarrow> Inl (Plain ''open: no such file or directory'')
            | Some d \<Rightarrow> Inr d))"

definition Decode :: "os_env \<Rightarrow> path \<Rightarrow> dirent \<Rightarrow> error + SessionData" where
  "Decode env p d =
     (case d of
        NotRegular \<Rightarrow> Inl (Plain ''read: is a directory'')
      | RegularFile f \<Rightarrow>
          if fails env OpRead p then Inl (Plain ''read'')
          else (case json_Decode env (content f) of
                  None \<Rightarrow> Inl (Plain ''json'')
                | Some data \<Rightarrow> Inr data))"

text \<open>
  \<^verbatim>\<open>os.Remove\<close>: the entry goes; the directory \<^verbatim>\<open>sessions\<close> itself goes only when
  it is empty.
\<close>

datatype remove_result = Removed | RemoveNotExist | RemoveError

definition os_Remove :: "os_env \<Rightarrow> path \<Rightarrow> filesystem \<Rightarrow> remove_result \<times> filesystem" where
  "os_Remove env p fs =
     (if fails env OpRemove p then (RemoveError, fs)
      else if lookup fs p = None then (RemoveNotExist, fs)
      else (case p of
              SessionFile name \<Rightarrow>
                (Removed, fs\<lparr>sessionsDir := map_option (AList.delete name) (sessionsDir fs)\<rparr>)
            | CurrentSessionFile \<Rightarrow> (Removed, fs\<lparr>currentFile := None\<rparr>)
            | SessionsDir \<Rightarrow>
                if sessionsDir fs = Some [] then (Removed, fs\<lparr>sessionsDir := None\<rparr>)
                else (RemoveError, fs)))"


definition os_ReadFile :: "os_env \<Rightarrow> path \<Rightarrow> filesystem \<Rightarrow> error + string" where
  "os_ReadFile env p fs =
     (if fails env OpReadFile p then Inl (Plain ''read'')
      else (case lookup fs p of
              Some (RegularFile f) \<Rightarrow> Inr (content f)
            | Some NotRegular \<Rightarrow> Inl (Plain ''read: is a directory'')
            | None \<Rightarrow> Inl (Plain ''open: no such file or directory'')))"

text \<open>
  \<^verbatim>\<open>os.WriteFile\<close> of the pointer file: the mode given is that of a new file, less
  the mask; a file that is there keeps its mode.
\<close>

definition os_WriteFile ::
  "os_env \<Rightarrow> path \<Rightarrow> string \<Rightarrow> FileMode \<Rightarrow> filesystem \<Rightarrow> error + filesystem" where
  "os_WriteFile env p bytes mode fs =
     (if fails env OpWriteFile p then Inl (Plain ''write'')
      else (case p of
              CurrentSessionFile \<Rightarrow>
                (case currentFile fs of
                   None \<Rightarrow>
                     Inr (fs\<lparr>currentFile :=
                            Some \<lparr>content = bytes, perm = mode AND NOT (umask env)\<rparr>\<rparr>)
                 | Some f \<Rightarrow> Inr (fs\<lparr>currentFile := Some (f\<lparr>content := bytes\<rparr>)\<rparr>))
            | _ \<Rightarrow> Inl (Plain ''write'')))"


section \<open>LocalSessionRepository\<close>

text \<open>
  Each operation takes the file system and returns its result with the file system it
  leaves. The operations that load a session read the clock (\<open>NewSession\<close> stamps the
  entity it builds); \<open>now\<close> is that reading, one for a whole operation. Debug and
  information log lines are left out; the warnings of the two deleting loops are kept.
\<close>

definition getSessionFilePath :: "SessionID \<Rightarrow> path" where
  "getSessionFilePath i =
     (if SessionID_String i = [] then SessionsDir else SessionFile (SessionID_String i))"

definition getCurrentSessionFilePath :: path where
  "getCurrentSessionFilePath = CurrentSessionFile"

definition ensureConfigDir :: "os_env \<Rightarrow> filesystem \<Rightarrow> error option \<times> filesystem" where
  "ensureConfigDir env fs = os_MkdirAll env fs"

definition Save :: "os_env \<Rightarrow> Session \<Rightarrow> filesystem \<Rightarrow> error option \<times> filesystem" where
  "Save env session fs =
     (case ensureConfigDir env fs of
        (Some err, fs1) \<Rightarrow> (Some (Wrap err ''failed to ensure config directory''), fs1)
      | (None, fs1) \<Rightarrow>
          let data = \<lparr>data_ID = SessionID_String (ident session),
                      data_Username = username session,
                      data_Token = token session,
                      data_ExpiresAt = Time_Unix (expiresAt session),
                      data_CreatedAt = Time_Unix (createdAt session),
                      data_LastUsed = Time_Unix (lastUsed session)\<rparr>;
              sessionFile = getSessionFilePath (ident session)
          in (case os_Create env sessionFile fs1 of
                Inl err \<Rightarrow> (Some (Wrap err ''failed to create session file''), fs1)
              | Inr fs2 \<Rightarrow>
                  (case os_Write env sessionFile (json_Encode env data) fs2 of
                     Inl err \<Rightarrow> (Some (Wrap err ''failed to encode session data''), fs2)
                   | Inr fs3 \<Rightarrow>
                       (case os_Chmod env sessionFile mode_0600 fs3 of
                          Inl err \<Rightarrow> (None, fs3)
                        | Inr fs4 \<Rightarrow> (None, fs4)))))"

definition dataToSession :: "Time \<Rightarrow> SessionData \<Rightarrow> error + Session" where
  "dataToSession now data =
     (case NewSessionID (data_ID data) of
        Inl err \<Rightarrow> Inl err
      | Inr sessionID \<Rightarrow>
          Inr (UpdateLastUsedAt (time_Unix (data_LastUsed data))
                 (NewSession now sessionID (data_Username data) (data_Token data)
                    (time_Unix (data_ExpiresAt data)))))"

definition GetByID :: "os_env \<Rightarrow> Time \<Rightarrow> SessionID \<Rightarrow> filesystem \<Rightarrow> error + Session" where
  "GetByID env now i fs =
     (let sessionFile = getSessionFilePath i in
      if os_Stat env sessionFile fs = StatNotExist then
        Inl (NewAppError CodeNotFound ''session not found'' None)
      else
        (case os_Open env sessionFile fs of
           Inl err \<Rightarrow> Inl (Wrap err ''failed to open session file'')
         | Inr d \<Rightarrow>
             (case Decode env sessionFile d of
                Inl err \<Rightarrow> Inl (Wrap err ''failed to decode session data'')
              | Inr data \<Rightarrow>
                  (case dataToSession now data of
                     Inl err \<Rightarrow> Inl (Wrap err ''failed to convert session data'')
                   | Inr session \<Rightarrow> Inr session))))"

definition GetCurrent :: "os_env \<Rightarrow> Time \<Rightarrow> filesystem \<Rightarrow> error + Session" where
  "GetCurrent env now fs =
     (let currentFile = getCurrentSessionFilePath in
      if os_Stat env currentFile fs = StatNotExist then
        Inl (NewAppError CodeNotFound ''no current session'' None)
      else
        (case os_ReadFile env currentFile fs of
           Inl err \<Rightarrow> Inl (Wrap err ''failed to read current session file'')
         | Inr bytes \<Rightarrow>
             (case NewSessionID bytes of
                Inl err \<Rightarrow> Inl (Wrap err ''invalid session ID in current session file'')
              | Inr sessionID \<Rightarrow> GetByID env now sessionID fs)))"









definition Exists :: "os_env \<Rightarrow> SessionID \<Rightarrow> filesystem \<Rightarrow> error + bool" where
  "Exists env i fs =
     (case os_Stat env (getSessionFilePath i) fs of
        StatNotExist \<Rightarrow> Inr False
      | StatError \<Rightarrow> Inl (Wrap (Plain ''stat'') ''failed to check session file'')
      | StatOK \<Rightarrow> Inr True)"

definition SetCurrent :: "os_env \<Rightarrow> Session \<Rightarrow> filesystem \<Rightarrow> error option \<times> filesystem" where
  "SetCurrent env session fs =
     (case ensureConfigDir env fs of
        (Some err, fs1) \<Rightarrow> (Some (Wrap err ''failed to ensure config directory''), fs1)
      | (None, fs1) \<Rightarrow>
          (case os_WriteFile env getCurrentSessionFilePath
                  (SessionID_String (ident session)) mode_0600 fs1 of
             Inl err \<Rightarrow> (Some (Wrap err ''failed to write current session file''), fs1)
           | Inr fs2 \<Rightarrow> (None, fs2)))"

definition ClearCurrent :: "os_env \<Rightarrow> filesystem \<Rightarrow> error option \<times> filesystem" where
  "ClearCurrent env fs =
     (case os_Remove env getCurrentSessionFilePath fs of
        (RemoveError, fs') \<Rightarrow>
          (Some (Wrap (Plain ''remove'') ''failed to remove current session file''), fs')
      | (r, fs') \<Rightarrow> (None, fs'))"


section \<open>AOJAuthRepository\<close>

text \<open>
  The network is an input of the model too. A request is its method, its URL, its
  headers and its JSON payload (for the login, the id and the password);
  \<open>NewRequest_fails\<close> says that \<^verbatim>\<open>http.NewRequestWithContext\<close> refuses the method
  and URL; \<open>Do\<close> is the client: the response, or \<open>None\<close> for a transport failure;
  \<open>json_Decode_LoginResponse\<close> is what the JSON decoder reads from a response body;
  \<open>rand_Read\<close> is the random source. Encoding the login request, a struct of two
  strings, cannot fail, so that branch of \<open>Login\<close> has no counterpart here.
\<close>

record http_request =
  req_Method :: string
  req_URL :: string
  req_Header :: "(string \<times> string) list"
  req_Payload :: "(string \<times> string) option"

record http_response =
  StatusCode :: int
  Body :: string

record repository_LoginResponse =
  resp_ID :: string
  resp_Name :: string
  resp_SessionID :: string
  resp_Token :: string

record net_env =
  NewRequest_fails :: "string \<Rightarrow> string \<Rightarrow> bool"
  Do :: "http_request \<Rightarrow> http_response option"
  json_Decode_LoginResponse :: "string \<Rightarrow> repository_LoginResponse option"
  rand_Read :: "nat \<Rightarrow> 8 word list option"

definition StatusOK :: int where "StatusOK = 200"
definition StatusBadRequest :: int where "StatusBadRequest = 400"
definition StatusUnauthorized :: int where "StatusUnauthorized = 401"
definition StatusInternalServerError :: int where "StatusInternalServerError = 500"

definition parseLoginResponse :: "net_env \<Rightarrow> Time \<Rightarrow> http_response \<Rightarrow> error + Session" where
  "parseLoginResponse net now resp =
     (case json_Decode_LoginResponse net (Body resp) of
        None \<Rightarrow> Inl (Wrap (Plain ''json'') ''failed to decode login response'')
      | Some loginResp \<Rightarrow>
          (case GenerateSessionID (rand_Read net) of
             Inl err \<Rightarrow> Inl (Wrap err ''failed to generate session ID'')
           | Inr sessionID \<Rightarrow>
               Inr (NewSessionWithDuration now sessionID (resp_ID loginResp)
                      (resp_Token loginResp) (24 * Hour))))"

definition Login :: "net_env \<Rightarrow> string \<Rightarrow> Time \<Rightarrow> string \<Rightarrow> string \<Rightarrow> error + Session" where
  "Login net baseURL now uname password =
     (let url = baseURL @ ''/session'' in
      if NewRequest_fails net ''POST'' url then
        Inl (Wrap (Plain ''net/http'') ''failed to create HTTP request'')
      else
        (case Do net \<lparr>req_Method = ''POST'', req_URL = url,
                       req_Header = [(''Content-Type'', ''application/json;charset=UTF-8'')],
                       req_Payload = Some (uname, password)\<rparr> of
           None \<Rightarrow>
             Inl (NewAppError CodeNetworkError ''failed to connect to AOJ''
                    (Some (Plain ''net/http'')))
         | Some resp \<Rightarrow>
             if StatusCode resp = StatusOK then parseLoginResponse net now resp
             else if StatusCode resp = StatusUnauthorized then
               Inl (NewAppError CodeUnauthorized ''invalid username or password'' None)
             else if StatusCode resp = StatusBadRequest then
               Inl (NewAppError CodeInvalidInput ''invalid login request format'' None)
             else if StatusCode resp = StatusInternalServerError then
               Inl (NewAppError CodeServiceUnavailable ''AOJ server error'' None)
             else
               Inl (NewAppError CodeInternalServer ''unexpected response from AOJ''
                      (WithDetail None ''status_code: ''))))"

definition ValidateSession :: "net_env \<Rightarrow> string \<Rightarrow> Time \<Rightarrow> Session \<Rightarrow> error + bool" where
  "ValidateSession net baseURL now session =
     (if IsExpired now session then Inr False
      else
        let url = baseURL @ ''/user/'' @ username session in
        if NewRequest_fails net ''GET'' url then
          Inl (Wrap (Plain ''net/http'') ''failed to create validation request'')
        else
          (case Do net \<lparr>req_Method = ''GET'', req_URL = url,
                         req_Header = [(''Authorization'', ''Bearer '' @ token session)],
                         req_Payload = None\<rparr> of
             None \<Rightarrow>
               Inl (NewAppError CodeNetworkError ''failed to validate session with AOJ''
                      (Some (Plain ''net/http'')))
           | Some resp \<Rightarrow> Inr (StatusCode resp = StatusOK)))"

text \<open>
  \<open>RefreshSession\<close> takes a pointer to a session and returns a pointer to a new one.
  The sessions live in a store, a list addressed by position; \<^verbatim>\<open>&Session{...}\<close>
  puts a new object at the next free address. A pointer outside the store is the nil
  pointer, and the call panics: \<open>None\<close>. \<open>now\<close> is the clock read by the expiry check
  of \<open>ValidateSession\<close>, \<open>now'\<close> the clock read when the new session is built.
\<close>

type_synonym heap = "Session list"

definition new_Session :: "Session \<Rightarrow> heap \<Rightarrow> nat \<times> heap" where
  "new_Session s h = (length h, h @ [s])"

definition RefreshSession ::
  "net_env \<Rightarrow> string \<Rightarrow> Time \<Rightarrow> Time \<Rightarrow> nat \<Rightarrow> heap \<Rightarrow> ((error + nat) \<times> heap) option" where
  "RefreshSession net baseURL now now' p h =
     (if length h \<le> p then None
      else
        Some (case ValidateSession net baseURL now (h ! p) of
                Inl err \<Rightarrow> (Inl (Wrap err ''failed to validate session for refresh''), h)
              | Inr isValid \<Rightarrow>
                  if \<not> isValid then
                    (Inl (NewAppError CodeUnauthorized ''session is no longer valid'' None), h)
                  else
                    (case GenerateSessionID (rand_Read net) of
                       Inl err \<Rightarrow> (Inl (Wrap err ''failed to generate new session ID''), h)
                     | Inr newSessionID \<Rightarrow>
                         (case new_Session
                                 (NewSessionWithDuration now' newSessionID
                                    (username (h ! p)) (token (h ! p)) (24 * Hour)) h of
                            (q, h') \<Rightarrow> (Inr q, h')))))"


section \<open>LoginUseCase\<close>

text \<open>
  The use case knows its two repositories through their interfaces only: they are
  functions over a state of any type. A login returns a session or an error, as the
  AOJ repository does (never a nil session with a nil error). \<open>Execute\<close> returns its
  result, the state it leaves and the calls it made to the repositories, in order.
\<close>

record usecase_LoginRequest =
  Username :: string
  Password :: string

record usecase_LoginResponse =
  Success :: bool
  Response_Username :: string
  Response_SessionID :: string
  Message :: string

record 'w LoginUseCase =
  authRepo_Login :: "string \<Rightarrow> string \<Rightarrow> 'w \<Rightarrow> (error + Session) \<times> 'w"
  sessionRepo_Save :: "Session \<Rightarrow> 'w \<Rightarrow> error option \<times> 'w"
  sessionRepo_SetCurrent :: "Session \<Rightarrow> 'w \<Rightarrow> error option \<times> 'w"

datatype call = Call_Login string string | Call_Save Session | Call_SetCurrent Session

definition validateRequest :: "usecase_LoginRequest \<Rightarrow> error option" where
  "validateRequest request =
     (if TrimSpace (Username request) = [] then
        Some (NewAppError CodeInvalidInput ''username cannot be empty'' None)
      else if TrimSpace (Password request) = [] then
        Some (NewAppError CodeInvalidInput ''password cannot be empty'' None)
      else None)"

definition Execute ::
  "'w LoginUseCase \<Rightarrow> usecase_LoginRequest \<Rightarrow> 'w
   \<Rightarrow> (error + usecase_LoginResponse) \<times> 'w \<times> call list" where
  "Execute uc request w =
     (case validateRequest request of
        Some err \<Rightarrow> (Inl err, w, [])
      | None \<Rightarrow>
          (case authRepo_Login uc (Username request) (Password request) w of
             (Inl err, w1) \<Rightarrow>
               (Inl (Wrap err ''authentication failed''), w1,
                [Call_Login (Username request) (Password request)])
           | (Inr session, w1) \<Rightarrow>
               (case sessionRepo_Save uc session w1 of
                  (Some err, w2) \<Rightarrow>
                    (Inl (Wrap err ''failed to save session''), w2,
                     [Call_Login (Username request) (Password request), Call_Save session])
                | (None, w2) \<Rightarrow>
                    (case sessionRepo_SetCurrent uc session w2 of
                       (Some err, w3) \<Rightarrow>
                         (Inl (Wrap err ''failed to set current session''), w3,
                          [Call_Login (Username request) (Password request),
                           Call_Save session, Call_SetCurrent session])
                     | (None, w3) \<Rightarrow>
                         (Inr \<lparr>Success = True,
                               Response_Username = username session,
                               Response_SessionID = SessionID_String (ident session),
                               Message = ''Login successful''\<rparr>, w3,
                          [Call_Login (Username request) (Password request),
                           Call_Save session, Call_SetCurrent session])))))"

text \<open>
  The use case as the program wires it: the login of the AOJ repository, which leaves
  the files alone, and the local session repository.
\<close>

definition localLoginUseCase ::
  "os_env \<Rightarrow> net_env \<Rightarrow> string \<Rightarrow> Time \<Rightarrow> filesystem LoginUseCase" where
  "localLoginUseCase env net baseURL now =
     \<lparr>authRepo_Login = (\<lambda>u p fs. (Login net baseURL now u p, fs)),
      sessionRepo_Save = Save env,
      sessionRepo_SetCurrent = SetCurrent env\<rparr>"


section \<open>The specification's words\<close>

text \<open>
  "A string of 32 to 128 hexadecimal characters", as the specification says it, to
  compare with the pattern of the code.
\<close>

definition spec_hex_32_128 :: "string \<Rightarrow> bool" where
  "spec_hex_32_128 s =
     (32 \<le> length s \<and> length s \<le> 128 \<and> list_all (\<lambda>c. c \<in> set ''0123456789abcdefABCDEF'') s)"


section \<open>Concrete inputs\<close>

text \<open>
  A session, the record \<open>Save\<close> makes of it and the JSON text of that record; a codec
  that is right on this record; an environment in which no system call fails, with
  the usual mask 022.
\<close>

definition alice :: Session where
  "alice =
     \<lparr>ident = \<lparr>id_value = ''0123456789abcdef0123456789abcdef''\<rparr>,
      username = ''alice'', token = ''tok'',
      expiresAt = 1500000000, createdAt = 0, lastUsed = 700000000\<rparr>"

definition alice_data :: SessionData where
  "alice_data =
     \<lparr>data_ID = ''0123456789abcdef0123456789abcdef'',
      data_Username = ''alice'', data_Token = ''tok'',
      data_ExpiresAt = 1, data_CreatedAt = 0, data_LastUsed = 0\<rparr>"

definition alice_json :: string where
  "alice_json = ''{id:0123456789abcdef0123456789abcdef,username:alice,token:tok,expires_at:1,created_at:0,last_used:0}''"

definition table_Encode :: "SessionData \<Rightarrow> string" where
  "table_Encode d = (if d = alice_data then alice_json else [])"

definition table_Decode :: "string \<Rightarrow> SessionData option" where
  "table_Decode bytes = (if bytes = alice_json then Some alice_data else None)"

definition no_faults :: os_env where
  "no_faults =
     \<lparr>fails = (\<lambda>op p. False), umask = 0x12,
      json_Encode = table_Encode, json_Decode = table_Decode\<rparr>"

definition empty_fs :: filesystem where
  "empty_fs = \<lparr>sessionsDir = None, currentFile = None\<rparr>"

text \<open>A pointer file that names a session with no record, and one that holds no id.\<close>

definition dangling_fs :: filesystem where
  "dangling_fs =
     \<lparr>sessionsDir = Some [],
      currentFile = Some \<lparr>content = ''0123456789abcdef0123456789abcdef'', perm = mode_0600\<rparr>\<rparr>"

definition garbage_pointer_fs :: filesystem where
  "garbage_pointer_fs =
     \<lparr>sessionsDir = Some [], currentFile = Some \<lparr>content = ''not-a-session-id'', perm = mode_0600\<rparr>\<rparr>"


text \<open>An environment in which \<^verbatim>\<open>os.Chmod\<close> fails and nothing else does.\<close>

definition chmod_denied :: os_env where
  "chmod_denied = no_faults\<lparr>fails := (\<lambda>op p. op = OpChmod)\<rparr>"

text \<open>The record \<open>Save\<close> writes for a session.\<close>

definition SessionData_of :: "Session \<Rightarrow> SessionData" where
  "SessionData_of session =
     \<lparr>data_ID = SessionID_String (ident session),
      data_Username = username session,
      data_Token = token session,
      data_ExpiresAt = Time_Unix (expiresAt session),
      data_CreatedAt = Time_Unix (createdAt session),
      data_LastUsed = Time_Unix (lastUsed session)\<rparr>"

text \<open>The mode \<^verbatim>\<open>os.Create\<close> leaves on a path: that of the file that was there, or 0666 less the mask.\<close>

definition mode_after_Create :: "os_env \<Rightarrow> filesystem \<Rightarrow> path \<Rightarrow> FileMode" where
  "mode_after_Create env fs p =
     (case lookup fs p of
        Some (RegularFile f) \<Rightarrow> perm f
      | _ \<Rightarrow> mode_0666 AND NOT (umask env))"













text \<open>The request \<open>Login\<close> sends.\<close>

definition loginRequest :: "string \<Rightarrow> string \<Rightarrow> string \<Rightarrow> http_request" where
  "loginRequest baseURL uname password =
     \<lparr>req_Method = ''POST'', req_URL = baseURL @ ''/session'',
      req_Header = [(''Content-Type'', ''application/json;charset=UTF-8'')],
      req_Payload = Some (uname, password)\<rparr>"

text \<open>
  A network whose server answers every request with the given status and a login
  response for alice, and a random source that gives zeros; the same with a body that
  is no JSON.
\<close>

definition answering :: "int \<Rightarrow> net_env" where
  "answering status =
     \<lparr>NewRequest_fails = (\<lambda>m u. False),
      Do = (\<lambda>req. Some \<lparr>StatusCode = status, Body = ''{id:alice,token:tok}''\<rparr>),
      json_Decode_LoginResponse =
        (\<lambda>b. Some \<lparr>resp_ID = ''alice'', resp_Name = [], resp_SessionID = [],
                     resp_Token = ''tok''\<rparr>),
      rand_Read = (\<lambda>n. Some (replicate n 0))\<rparr>"

definition answering_garbage :: net_env where
  "answering_garbage =
     \<lparr>NewRequest_fails = (\<lambda>m u. False),
      Do = (\<lambda>req. Some \<lparr>StatusCode = 200, Body = ''<html>''\<rparr>),
      json_Decode_LoginResponse = (\<lambda>b. None),
      rand_Read = (\<lambda>n. Some (replicate n 0))\<rparr>"

definition zeros64 :: string where
  "zeros64 = ''0000000000000000000000000000000000000000000000000000000000000000''"

text \<open>A session whose id is the one the zero bytes encode, not yet expired at time 0.\<close>

definition zero_session :: Session where
  "zero_session =
     \<lparr>ident = \<lparr>id_value = zeros64\<rparr>, username = ''alice'', token = ''tok'',
      expiresAt = 100, createdAt = 0, lastUsed = 0\<rparr>"


text \<open>An environment in which the pointer file cannot be written, and a login request.\<close>

definition pointer_denied :: os_env where
  "pointer_denied = no_faults\<lparr>fails := (\<lambda>op p. op = OpWriteFile)\<rparr>"

definition alice_request :: usecase_LoginRequest where
  "alice_request = \<lparr>Username = ''alice'', Password = ''secret''\<rparr>"

text \<open>The session the login of \<open>answering 200\<close> returns when the clock reads 7.\<close>

definition fresh_session :: Session where
  "fresh_session =
     \<lparr>ident = \<lparr>id_value = zeros64\<rparr>, username = ''alice'', token = ''tok'',
      expiresAt = 7 + 24 * Hour, createdAt = 7, lastUsed = 7\<rparr>"

text \<open>The files after \<open>Save\<close> of that session into the empty file system.\<close>

definition saved_fs :: filesystem where
  "saved_fs =
     \<lparr>sessionsDir = Some [(zeros64, RegularFile \<lparr>content = [], perm = mode_0600\<rparr>)],
      currentFile = None\<rparr>"


text \<open>
  An environment in which the pointer file cannot be read, and a store whose pointer
  file names the record of alice.
\<close>

definition pointer_unreadable :: os_env where
  "pointer_unreadable = no_faults\<lparr>fails := (\<lambda>op p. op = OpReadFile)\<rparr>"

definition current_alice_fs :: filesystem where
  "current_alice_fs =
     \<lparr>sessionsDir = Some
        [(''0123456789abcdef0123456789abcdef'',
          RegularFile \<lparr>content = alice_json, perm = mode_0600\<rparr>)],
      currentFile =
        Some \<lparr>content = ''0123456789abcdef0123456789abcdef'', perm = mode_0600\<rparr>\<rparr>"


section \<open>Properties of the error values and of TrimSpace\<close>

lemmas ErrorCode_defs =
  CodeNotFound_def CodeInvalidInput_def CodeUnauthorized_def CodeForbidden_def
  CodeConflict_def CodeInternalServer_def CodeServiceUnavailable_def CodeTimeout_def
  CodeNetworkError_def

lemma GetErrorCode_NewAppError: "GetErrorCode (NewAppError code msg err) = code"
  by (simp add: GetErrorCode_def NewAppError_def)

lemma GetErrorCode_Wrap: "GetErrorCode (Wrap err msg) = GetErrorCode err"
  by (simp add: GetErrorCode_def Wrap_def)

lemma GetErrorCode_Plain: "GetErrorCode (Plain msg) = []"
  by (simp add: GetErrorCode_def)

lemma IsAppError_GetErrorCode: "code \<noteq> [] \<Longrightarrow> IsAppError err code = (GetErrorCode err = code)"
  by (auto simp: IsAppError_def GetErrorCode_def split: option.splits)

lemma whiteSpace_ends:
  "p \<in> set whiteSpace \<Longrightarrow> p \<noteq> [] \<and> \<not> hexClass (hd p) \<and> \<not> hexClass (last p)"
  unfolding whiteSpace_def by (auto simp: hexClass_def)

lemma leadingSpace_hex: "hexClass c \<Longrightarrow> leadingSpace (c # s) = 0"
proof -
  assume h: "hexClass c"
  have "\<not> (\<exists>p \<in> set whiteSpace. take (length p) (c # s) = p)"
  proof
    assume "\<exists>p \<in> set whiteSpace. take (length p) (c # s) = p"
    then obtain p where p: "p \<in> set whiteSpace" "take (length p) (c # s) = p" by blast
    from whiteSpace_ends[OF p(1)] have ne: "p \<noteq> []" and nh: "\<not> hexClass (hd p)" by auto
    from ne obtain x xs where "p = x # xs" by (cases p) auto
    with p(2) have "hd p = c" by simp
    with nh h show False by simp
  qed
  then have "find (\<lambda>p. take (length p) (c # s) = p) whiteSpace = None"
    by (simp add: find_None_iff)
  then show ?thesis by (simp add: leadingSpace_def)
qed

lemma trailingSpace_hex: "s \<noteq> [] \<Longrightarrow> hexClass (last s) \<Longrightarrow> trailingSpace s = 0"
proof -
  assume s: "s \<noteq> []" and h: "hexClass (last s)"
  have "\<not> (\<exists>p \<in> set whiteSpace. length p \<le> length s \<and> drop (length s - length p) s = p)"
  proof
    assume "\<exists>p \<in> set whiteSpace. length p \<le> length s \<and> drop (length s - length p) s = p"
    then obtain p where p: "p \<in> set whiteSpace" "length p \<le> length s"
      "drop (length s - length p) s = p" by blast
    from whiteSpace_ends[OF p(1)] have ne: "p \<noteq> []" and nh: "\<not> hexClass (last p)" by auto
    from ne s have "length s - length p < length s" by (cases p) auto
    then have "last (drop (length s - length p) s) = last s" by (rule last_drop)
    with p(3) have "last p = last s" by simp
    with nh h show False by simp
  qed
  then have "find (\<lambda>p. length p \<le> length s \<and> drop (length s - length p) s = p) whiteSpace = None"
    by (simp add: find_None_iff)
  then show ?thesis by (simp add: trailingSpace_def)
qed

lemma TrimSpace_hex: "s \<noteq> [] \<Longrightarrow> list_all hexClass s \<Longrightarrow> TrimSpace s = s"
proof -
  assume s: "s \<noteq> []" and h: "list_all hexClass s"
  from s obtain c cs where cs: "s = c # cs" by (cases s) auto
  with h have "hexClass c" by simp
  then have l: "leadingSpace s = 0" unfolding cs by (rule leadingSpace_hex)
  from s h have "hexClass (last s)" by (simp add: list_all_iff)
  with s have t: "trailingSpace s = 0" by (rule trailingSpace_hex)
  from l have "TrimLeft s = s" by simp
  moreover from t have "TrimRight s = s" by simp
  ultimately show ?thesis by (simp add: TrimSpace_def)
qed

lemma TrimSpace_Nil: "TrimSpace [] = []"
  by (simp add: TrimSpace_def leadingSpace_def trailingSpace_def whiteSpace_def)


section \<open>SessionID\<close>

text \<open>The character class of the pattern is the set of the hexadecimal digits.\<close>

lemma hex_digits_enum:
  "map char_of ([48..<58] @ [97..<103] @ [65..<71] :: nat list) = ''0123456789abcdefABCDEF''"
  by code_simp

lemma hexClass_iff: "hexClass c \<longleftrightarrow> c \<in> set ''0123456789abcdefABCDEF''"
proof
  assume "c \<in> set ''0123456789abcdefABCDEF''"
  then show "hexClass c" by (auto simp: hexClass_def)
next
  assume h: "hexClass c"
  define n :: nat where "n = of_char c"
  have c: "c = char_of n" by (simp add: n_def)
  from h have "(97 \<le> n \<and> n \<le> 102) \<or> (65 \<le> n \<and> n \<le> 70) \<or> (48 \<le> n \<and> n \<le> 57)"
    by (simp add: hexClass_def less_eq_char_def n_def)
  then have "(97 \<le> n \<and> n < 103) \<or> (65 \<le> n \<and> n < 71) \<or> (48 \<le> n \<and> n < 58)"
    by auto
  then have "n \<in> set ([48..<58] @ [97..<103] @ [65..<71])"
    by (simp only: set_append set_upt Un_iff atLeastLessThan_iff) blast
  then have "c \<in> set (map char_of ([48..<58] @ [97..<103] @ [65..<71] :: nat list))"
    unfolding c by (simp only: set_map imageI)
  then show "c \<in> set ''0123456789abcdefABCDEF''"
    by (simp only: hex_digits_enum)
qed

lemma pattern_is_spec: "sessionIDPattern_MatchString s = spec_hex_32_128 s"
proof -
  have "hexClass = (\<lambda>c. c \<in> set ''0123456789abcdefABCDEF'')"
    by (rule ext) (rule hexClass_iff)
  then show ?thesis
    unfolding sessionIDPattern_MatchString_def spec_hex_32_128_def by (simp only:)
qed

lemma NewSessionID_Inl_code: "NewSessionID v = Inl e \<Longrightarrow> GetErrorCode e = CodeInvalidInput"
  by (auto simp: NewSessionID_def Let_def GetErrorCode_NewAppError split: if_splits)

lemma NewSessionID_Inr_iff:
  "NewSessionID v = Inr i \<longleftrightarrow> spec_hex_32_128 (TrimSpace v) \<and> i = \<lparr>id_value = TrimSpace v\<rparr>"
proof -
  have "\<not> spec_hex_32_128 (TrimSpace [])"
    by (simp add: TrimSpace_Nil spec_hex_32_128_def)
  then show ?thesis
    by (auto simp: NewSessionID_def Let_def isValidSessionIDFormat_def pattern_is_spec)
qed

lemma NewSessionID_valid:
  assumes "SessionID_IsValid i"
  shows "NewSessionID (SessionID_String i) = Inr i"
proof -
  from assms have v: "id_value i \<noteq> []" and m: "sessionIDPattern_MatchString (id_value i)"
    by (simp_all add: SessionID_IsValid_def isValidSessionIDFormat_def)
  from m have "list_all hexClass (id_value i)"
    by (simp add: sessionIDPattern_MatchString_def)
  with v have t: "TrimSpace (id_value i) = id_value i" by (rule TrimSpace_hex)
  from m t v show ?thesis
    by (simp add: NewSessionID_def Let_def isValidSessionIDFormat_def SessionID_String_def)
qed

text \<open>
  C5, as amended. The constructor trims the white space around its argument before it
  matches the pattern. So it succeeds exactly when the trimmed argument is a string of
  32 to 128 hexadecimal characters, and then \<open>String()\<close> returns the trimmed argument;
  it fails with an error of kind InvalidInput exactly when the trimmed argument is not
  such a string. A string of 32 to 128 hexadecimal characters is its own trimmed form.
\<close>

theorem NewSessionID_accepts_trimmed_hex:
  "(case NewSessionID v of
      Inr i \<Rightarrow> spec_hex_32_128 (TrimSpace v) \<and> SessionID_String i = TrimSpace v
    | Inl e \<Rightarrow> \<not> spec_hex_32_128 (TrimSpace v) \<and> GetErrorCode e = CodeInvalidInput)
   \<and> (spec_hex_32_128 v \<longrightarrow> TrimSpace v = v \<and> NewSessionID v = Inr \<lparr>id_value = v\<rparr>)"
proof (intro conjI impI)
  show "case NewSessionID v of
      Inr i \<Rightarrow> spec_hex_32_128 (TrimSpace v) \<and> SessionID_String i = TrimSpace v
    | Inl e \<Rightarrow> \<not> spec_hex_32_128 (TrimSpace v) \<and> GetErrorCode e = CodeInvalidInput"
  proof (cases "NewSessionID v")
    case (Inl e)
    then have "\<not> spec_hex_32_128 (TrimSpace v)"
      using NewSessionID_Inr_iff[of v "\<lparr>id_value = TrimSpace v\<rparr>"] by auto
    with Inl show ?thesis by (simp add: NewSessionID_Inl_code)
  next
    case (Inr i)
    then have "spec_hex_32_128 (TrimSpace v) \<and> i = \<lparr>id_value = TrimSpace v\<rparr>"
      by (simp add: NewSessionID_Inr_iff)
    with Inr show ?thesis by (simp add: SessionID_String_def)
  qed
next
  assume h: "spec_hex_32_128 v"
  then have ne: "v \<noteq> []" by (auto simp: spec_hex_32_128_def)
  from h have "list_all hexClass v"
    by (simp add: pattern_is_spec[symmetric] sessionIDPattern_MatchString_def)
  with ne show t: "TrimSpace v = v" by (rule TrimSpace_hex)
  with h show "NewSessionID v = Inr \<lparr>id_value = v\<rparr>" by (simp add: NewSessionID_Inr_iff)
qed

theorem NewSessionID_accepts_trimmed_hex_witness:
  "spec_hex_32_128 ''0123456789abcdef0123456789ABCDEF''
   \<and> TrimSpace ''0123456789abcdef0123456789ABCDEF'' = ''0123456789abcdef0123456789ABCDEF''
   \<and> NewSessionID ''0123456789abcdef0123456789ABCDEF''
       = Inr \<lparr>id_value = ''0123456789abcdef0123456789ABCDEF''\<rparr>"
proof -
  have h: "spec_hex_32_128 ''0123456789abcdef0123456789ABCDEF''"
    by (simp add: spec_hex_32_128_def)
  with NewSessionID_accepts_trimmed_hex[of "''0123456789abcdef0123456789ABCDEF''"]
  show ?thesis by blast
qed

text \<open>
  The claim as it was written fails on a string that is not made of hexadecimal
  characters only: a space before 32 of them is accepted.
\<close>

theorem NewSessionID_other_string_counterexample:
  "\<not> spec_hex_32_128 '' 0123456789abcdef0123456789ABCDEF''
   \<and> NewSessionID '' 0123456789abcdef0123456789ABCDEF''
       = Inr \<lparr>id_value = ''0123456789abcdef0123456789ABCDEF''\<rparr>"
proof -
  have t: "TrimSpace '' 0123456789abcdef0123456789ABCDEF'' = ''0123456789abcdef0123456789ABCDEF''"
    by code_simp
  have h: "spec_hex_32_128 ''0123456789abcdef0123456789ABCDEF''"
    by (simp add: spec_hex_32_128_def)
  have n: "\<not> spec_hex_32_128 '' 0123456789abcdef0123456789ABCDEF''"
    by (simp add: spec_hex_32_128_def)
  from t h n show ?thesis by (simp add: NewSessionID_Inr_iff)
qed


section \<open>Session\<close>

text \<open>
  C9. After \<open>RefreshFromNow\<close> the expiry is the later of the clock and the old expiry,
  plus the duration: a session that had expired is extended from the clock, not from
  its old expiry. The time of last use is the clock as \<open>UpdateLastUsed\<close> reads it.
  Nothing else changes.
\<close>

theorem RefreshFromNow_extends_from_max:
  "expiresAt (RefreshFromNow now now' d s) = max now (expiresAt s) + d
   \<and> lastUsed (RefreshFromNow now now' d s) = now'
   \<and> ident (RefreshFromNow now now' d s) = ident s
   \<and> username (RefreshFromNow now now' d s) = username s
   \<and> token (RefreshFromNow now now' d s) = token s
   \<and> createdAt (RefreshFromNow now now' d s) = createdAt s"
  by (simp add: RefreshFromNow_def UpdateLastUsed_def Time_Before_def Time_Add_def max_def)

theorem RefreshFromNow_extends_from_max_witness:
  "expiresAt (RefreshFromNow 100 101 10
       \<lparr>ident = \<lparr>id_value = []\<rparr>, username = ''u'', token = ''t'',
        expiresAt = 50, createdAt = 0, lastUsed = 0\<rparr>) = 110
   \<and> lastUsed (RefreshFromNow 100 101 10
       \<lparr>ident = \<lparr>id_value = []\<rparr>, username = ''u'', token = ''t'',
        expiresAt = 50, createdAt = 0, lastUsed = 0\<rparr>) = 101"
  using RefreshFromNow_extends_from_max[of 100 101 10
       "\<lparr>ident = \<lparr>id_value = []\<rparr>, username = ''u'', token = ''t'',
        expiresAt = 50, createdAt = 0, lastUsed = 0\<rparr>"]
  by simp

section \<open>LocalSessionRepository: the current session\<close>

lemma lookup_current: "lookup fs CurrentSessionFile = map_option RegularFile (currentFile fs)"
  by (simp add: lookup_def split: option.splits)

lemma SessionID_valid_path:
  "NewSessionID bytes = Inr i \<Longrightarrow> getSessionFilePath i = SessionFile (id_value i)"
  by (auto simp: NewSessionID_Inr_iff getSessionFilePath_def SessionID_String_def
      spec_hex_32_128_def)

lemma GetCurrent_absent:
  assumes "currentFile fs = None" and "\<not> fails env OpStat CurrentSessionFile"
  shows "GetCurrent env now fs = Inl (NewAppError CodeNotFound ''no current session'' None)"
  using assms
  by (simp add: GetCurrent_def getCurrentSessionFilePath_def os_Stat_def lookup_current)

lemma GetCurrent_present:
  assumes "currentFile fs = Some f" and "\<not> fails env OpReadFile CurrentSessionFile"
  shows "GetCurrent env now fs =
     (case NewSessionID (content f) of
        Inl err \<Rightarrow> Inl (Wrap err ''invalid session ID in current session file'')
      | Inr i \<Rightarrow> GetByID env now i fs)"
  using assms
  by (simp add: GetCurrent_def getCurrentSessionFilePath_def os_Stat_def os_ReadFile_def
      lookup_current)

lemma GetByID_absent:
  assumes "lookup fs (getSessionFilePath i) = None"
    and "\<not> fails env OpStat (getSessionFilePath i)"
  shows "GetByID env now i fs = Inl (NewAppError CodeNotFound ''session not found'' None)"
  using assms by (simp add: GetByID_def os_Stat_def)

text \<open>
  C4, as amended. When the pointer file is absent, and the check that it exists does
  not itself fail, \<open>GetCurrent\<close> fails with NotFound. When the pointer file is there,
  is read without an error, and holds a valid session id, the result of \<open>GetCurrent\<close>
  is the result of \<open>GetByID\<close> on that id, whatever it is; so a pointer to a record
  that is gone (the check that the record exists not failing) gives the NotFound of
  \<open>GetByID\<close>, with nothing wrapped around it.
\<close>

theorem GetCurrent_propagates_GetByID:
  "(currentFile fs = None \<and> \<not> fails env OpStat CurrentSessionFile \<longrightarrow>
      GetCurrent env now fs = Inl (NewAppError CodeNotFound ''no current session'' None)
      \<and> IsAppError (NewAppError CodeNotFound ''no current session'' None) CodeNotFound)
   \<and> (currentFile fs = Some f \<and> \<not> fails env OpReadFile CurrentSessionFile
        \<and> NewSessionID (content f) = Inr i \<longrightarrow>
      GetCurrent env now fs = GetByID env now i fs
      \<and> (lookup fs (SessionFile (id_value i)) = None
           \<and> \<not> fails env OpStat (SessionFile (id_value i)) \<longrightarrow>
         GetCurrent env now fs = Inl (NewAppError CodeNotFound ''session not found'' None)
         \<and> IsAppError (NewAppError CodeNotFound ''session not found'' None) CodeNotFound))"
proof (intro conjI impI)
  assume "currentFile fs = None \<and> \<not> fails env OpStat CurrentSessionFile"
  then show "GetCurrent env now fs = Inl (NewAppError CodeNotFound ''no current session'' None)"
    by (simp add: GetCurrent_absent)
next
  show "IsAppError (NewAppError CodeNotFound ''no current session'' None) CodeNotFound"
    by (simp add: IsAppError_def NewAppError_def)
next
  assume a: "currentFile fs = Some f \<and> \<not> fails env OpReadFile CurrentSessionFile
        \<and> NewSessionID (content f) = Inr i"
  then show g: "GetCurrent env now fs = GetByID env now i fs"
    by (simp add: GetCurrent_present)
  assume b: "lookup fs (SessionFile (id_value i)) = None
           \<and> \<not> fails env OpStat (SessionFile (id_value i))"
  from a have "getSessionFilePath i = SessionFile (id_value i)"
    using SessionID_valid_path[of "content f" i] by simp
  with b have "GetByID env now i fs = Inl (NewAppError CodeNotFound ''session not found'' None)"
    by (simp add: GetByID_absent)
  with g show "GetCurrent env now fs = Inl (NewAppError CodeNotFound ''session not found'' None)"
    by simp
next
  show "IsAppError (NewAppError CodeNotFound ''session not found'' None) CodeNotFound"
    by (simp add: IsAppError_def NewAppError_def)
qed

lemma NewSessionID_alice:
  "NewSessionID ''0123456789abcdef0123456789abcdef''
     = Inr \<lparr>id_value = ''0123456789abcdef0123456789abcdef''\<rparr>"
proof -
  have "spec_hex_32_128 ''0123456789abcdef0123456789abcdef''"
    by (simp add: spec_hex_32_128_def)
  then show ?thesis
    using NewSessionID_Inr_iff TrimSpace_hex
    by (simp add: NewSessionID_Inr_iff TrimSpace_hex pattern_is_spec[symmetric]
        sessionIDPattern_MatchString_def)
qed

theorem GetCurrent_propagates_GetByID_witness:
  "GetCurrent no_faults 0 empty_fs = Inl (NewAppError CodeNotFound ''no current session'' None)
   \<and> GetCurrent no_faults 0 dangling_fs
       = GetByID no_faults 0 \<lparr>id_value = ''0123456789abcdef0123456789abcdef''\<rparr> dangling_fs
   \<and> GetCurrent no_faults 0 dangling_fs
       = Inl (NewAppError CodeNotFound ''session not found'' None)"
proof -
  have 1: "currentFile empty_fs = None \<and> \<not> fails no_faults OpStat CurrentSessionFile"
    by (simp add: empty_fs_def no_faults_def)
  have 2: "currentFile dangling_fs
             = Some \<lparr>content = ''0123456789abcdef0123456789abcdef'', perm = mode_0600\<rparr>
           \<and> \<not> fails no_faults OpReadFile CurrentSessionFile
           \<and> NewSessionID (content \<lparr>content = ''0123456789abcdef0123456789abcdef'',
                                      perm = mode_0600\<rparr>)
               = Inr \<lparr>id_value = ''0123456789abcdef0123456789abcdef''\<rparr>"
    by (simp add: dangling_fs_def no_faults_def NewSessionID_alice)
  have 3: "lookup dangling_fs
              (SessionFile (id_value \<lparr>id_value = ''0123456789abcdef0123456789abcdef''\<rparr>)) = None
           \<and> \<not> fails no_faults OpStat
              (SessionFile (id_value \<lparr>id_value = ''0123456789abcdef0123456789abcdef''\<rparr>))"
    by (simp add: dangling_fs_def no_faults_def lookup_def)
  from GetCurrent_propagates_GetByID[where fs = empty_fs and env = no_faults and now = 0] 1
  have a: "GetCurrent no_faults 0 empty_fs
             = Inl (NewAppError CodeNotFound ''no current session'' None)"
    by blast
  from GetCurrent_propagates_GetByID[where fs = dangling_fs and env = no_faults and now = 0
      and f = "\<lparr>content = ''0123456789abcdef0123456789abcdef'', perm = mode_0600\<rparr>"
      and i = "\<lparr>id_value = ''0123456789abcdef0123456789abcdef''\<rparr>"] 2 3
  have b: "GetCurrent no_faults 0 dangling_fs
       = GetByID no_faults 0 \<lparr>id_value = ''0123456789abcdef0123456789abcdef''\<rparr> dangling_fs
   \<and> GetCurrent no_faults 0 dangling_fs
       = Inl (NewAppError CodeNotFound ''session not found'' None)"
    by blast
  from a b show ?thesis by blast
qed

text \<open>
  The claim as it was written fails where the pointer file is there and cannot be
  read: it names the record of alice, \<open>GetByID\<close> on that id returns her session,
  and \<open>GetCurrent\<close> returns the error of the read, wrapped, which has no kind.
\<close>

theorem GetCurrent_unreadable_pointer_counterexample:
  "currentFile current_alice_fs
     = Some \<lparr>content = ''0123456789abcdef0123456789abcdef'', perm = mode_0600\<rparr>
   \<and> GetByID pointer_unreadable 0 \<lparr>id_value = ''0123456789abcdef0123456789abcdef''\<rparr>
        current_alice_fs
      = Inr \<lparr>ident = \<lparr>id_value = ''0123456789abcdef0123456789abcdef''\<rparr>,
             username = ''alice'', token = ''tok'',
             expiresAt = 1000000000, createdAt = 0, lastUsed = 0\<rparr>
   \<and> GetCurrent pointer_unreadable 0 current_alice_fs
      = Inl (Wrap (Plain ''read'') ''failed to read current session file'')
   \<and> GetErrorCode (Wrap (Plain ''read'') ''failed to read current session file'') = []"
proof -
  have d: "dataToSession 0 alice_data
      = Inr \<lparr>ident = \<lparr>id_value = ''0123456789abcdef0123456789abcdef''\<rparr>,
             username = ''alice'', token = ''tok'',
             expiresAt = 1000000000, createdAt = 0, lastUsed = 0\<rparr>"
    by (simp add: dataToSession_def alice_data_def NewSessionID_alice NewSession_def
        UpdateLastUsedAt_def time_Unix_def Second_def)
  have g: "GetByID pointer_unreadable 0 \<lparr>id_value = ''0123456789abcdef0123456789abcdef''\<rparr>
        current_alice_fs
      = Inr \<lparr>ident = \<lparr>id_value = ''0123456789abcdef0123456789abcdef''\<rparr>,
             username = ''alice'', token = ''tok'',
             expiresAt = 1000000000, createdAt = 0, lastUsed = 0\<rparr>"
    by (simp add: GetByID_def getSessionFilePath_def SessionID_String_def os_Stat_def
        os_Open_def Decode_def lookup_def pointer_unreadable_def no_faults_def
        current_alice_fs_def table_Decode_def d Let_def)
  have c: "GetCurrent pointer_unreadable 0 current_alice_fs
      = Inl (Wrap (Plain ''read'') ''failed to read current session file'')"
    by (simp add: GetCurrent_def getCurrentSessionFilePath_def os_Stat_def os_ReadFile_def
        lookup_def pointer_unreadable_def no_faults_def current_alice_fs_def Let_def)
  from g c show ?thesis
    by (simp add: current_alice_fs_def GetErrorCode_Wrap GetErrorCode_Plain)
qed

text \<open>
  C10, as amended. When the pointer file is there and is read without an error, and
  its content is not accepted as a session id, \<open>GetCurrent\<close> returns the error of the
  constructor, wrapped with a message: its code is InvalidInput, not NotFound.
\<close>

theorem GetCurrent_invalid_pointer:
  assumes "currentFile fs = Some f"
    and "\<not> fails env OpReadFile CurrentSessionFile"
    and "NewSessionID (content f) = Inl e"
  shows "GetCurrent env now fs = Inl (Wrap e ''invalid session ID in current session file'')
     \<and> GetErrorCode (Wrap e ''invalid session ID in current session file'') = CodeInvalidInput
     \<and> IsAppError (Wrap e ''invalid session ID in current session file'') CodeInvalidInput
     \<and> \<not> IsAppError (Wrap e ''invalid session ID in current session file'') CodeNotFound"
proof -
  from assms(3) have c: "GetErrorCode e = CodeInvalidInput" by (rule NewSessionID_Inl_code)
  then have w: "GetErrorCode (Wrap e ''invalid session ID in current session file'')
      = CodeInvalidInput"
    by (simp add: GetErrorCode_Wrap)
  from assms have "GetCurrent env now fs
      = Inl (Wrap e ''invalid session ID in current session file'')"
    by (simp add: GetCurrent_present)
  with w show ?thesis
    by (simp add: IsAppError_GetErrorCode ErrorCode_defs)
qed

theorem GetCurrent_invalid_pointer_witness:
  "GetCurrent no_faults 0 garbage_pointer_fs
     = Inl (Wrap (NewAppError CodeInvalidInput ''invalid session ID format'' None)
              ''invalid session ID in current session file'')
   \<and> GetErrorCode (Wrap (NewAppError CodeInvalidInput ''invalid session ID format'' None)
              ''invalid session ID in current session file'') = CodeInvalidInput"
proof -
  have t: "TrimSpace ''not-a-session-id'' = ''not-a-session-id''" by code_simp
  have n: "NewSessionID ''not-a-session-id''
      = Inl (NewAppError CodeInvalidInput ''invalid session ID format'' None)"
    by (simp add: NewSessionID_def t isValidSessionIDFormat_def
        sessionIDPattern_MatchString_def WithDetail_def)
  have 1: "currentFile garbage_pointer_fs = Some \<lparr>content = ''not-a-session-id'', perm = mode_0600\<rparr>"
    by (simp add: garbage_pointer_fs_def)
  have 2: "\<not> fails no_faults OpReadFile CurrentSessionFile" by (simp add: no_faults_def)
  have 3: "NewSessionID (content \<lparr>content = ''not-a-session-id'', perm = mode_0600\<rparr>)
      = Inl (NewAppError CodeInvalidInput ''invalid session ID format'' None)"
    by (simp add: n)
  from GetCurrent_invalid_pointer[OF 1 2 3] show ?thesis by blast
qed

text \<open>
  The claim as it was written fails where the pointer file is there, holds no session
  id, and cannot be read: \<open>GetCurrent\<close> returns the error of the read, wrapped, and
  its code is not InvalidInput.
\<close>

theorem GetCurrent_unreadable_garbage_counterexample:
  "currentFile garbage_pointer_fs
     = Some \<lparr>content = ''not-a-session-id'', perm = mode_0600\<rparr>
   \<and> NewSessionID ''not-a-session-id''
      = Inl (NewAppError CodeInvalidInput ''invalid session ID format'' None)
   \<and> GetCurrent pointer_unreadable 0 garbage_pointer_fs
      = Inl (Wrap (Plain ''read'') ''failed to read current session file'')
   \<and> GetErrorCode (Wrap (Plain ''read'') ''failed to read current session file'')
      \<noteq> CodeInvalidInput"
proof -
  have t: "TrimSpace ''not-a-session-id'' = ''not-a-session-id''" by code_simp
  have n: "NewSessionID ''not-a-session-id''
      = Inl (NewAppError CodeInvalidInput ''invalid session ID format'' None)"
    by (simp add: NewSessionID_def t isValidSessionIDFormat_def
        sessionIDPattern_MatchString_def WithDetail_def)
  have c: "GetCurrent pointer_unreadable 0 garbage_pointer_fs
      = Inl (Wrap (Plain ''read'') ''failed to read current session file'')"
    by (simp add: GetCurrent_def getCurrentSessionFilePath_def os_Stat_def os_ReadFile_def
        lookup_def pointer_unreadable_def no_faults_def garbage_pointer_fs_def Let_def)
  from n c show ?thesis
    by (simp add: garbage_pointer_fs_def GetErrorCode_Wrap GetErrorCode_Plain
        CodeInvalidInput_def)
qed


section \<open>LocalSessionRepository: Save and GetByID\<close>

lemma Save_success_D:
  assumes "Save env s fs = (None, fs')"
  shows "id_value (ident s) \<noteq> [] \<and> \<not> fails env OpMkdirAll SessionsDir
    \<and> \<not> fails env OpCreate (SessionFile (id_value (ident s)))
    \<and> \<not> fails env OpWrite (SessionFile (id_value (ident s)))
    \<and> lookup fs (SessionFile (id_value (ident s))) \<noteq> Some NotRegular
    \<and> lookup fs' (SessionFile (id_value (ident s)))
        = Some (RegularFile \<lparr>content = json_Encode env (SessionData_of s),
              perm = (if fails env OpChmod (SessionFile (id_value (ident s)))
                      then mode_after_Create env fs (SessionFile (id_value (ident s)))
                      else mode_0600)\<rparr>)
    \<and> currentFile fs' = currentFile fs"
  using assms
  unfolding Save_def ensureConfigDir_def os_MkdirAll_def getSessionFilePath_def
    SessionID_String_def os_Create_def os_Write_def os_Chmod_def Let_def lookup_def
    mode_after_Create_def SessionData_of_def
  by (auto simp: update_conv' split: option.splits sum.splits dirent.splits if_splits)

lemma Save_success_I:
  assumes "id_value (ident s) \<noteq> []" and "\<not> fails env OpMkdirAll SessionsDir"
    and "\<not> fails env OpCreate (SessionFile (id_value (ident s)))"
    and "\<not> fails env OpWrite (SessionFile (id_value (ident s)))"
    and "lookup fs (SessionFile (id_value (ident s))) \<noteq> Some NotRegular"
  shows "fst (Save env s fs) = None"
  using assms
  unfolding Save_def ensureConfigDir_def os_MkdirAll_def getSessionFilePath_def
    SessionID_String_def os_Create_def os_Write_def os_Chmod_def Let_def lookup_def
  by (auto simp: update_conv' split: option.splits sum.splits dirent.splits if_splits)

lemma GetByID_loaded:
  assumes "lookup fs (SessionFile (id_value i)) = Some (RegularFile f)"
    and "id_value i \<noteq> []"
    and "\<not> fails env OpOpen (SessionFile (id_value i))"
    and "\<not> fails env OpRead (SessionFile (id_value i))"
    and "json_Decode env (content f) = Some d"
  shows "GetByID env now i fs =
     (case dataToSession now d of
        Inl err \<Rightarrow> Inl (Wrap err ''failed to convert session data'')
      | Inr session \<Rightarrow> Inr session)"
  using assms
  by (simp add: GetByID_def getSessionFilePath_def SessionID_String_def os_Stat_def
      os_Open_def Decode_def Let_def)

lemma dataToSession_of:
  assumes "SessionID_IsValid (ident s)"
  shows "dataToSession now (SessionData_of s) =
     Inr \<lparr>ident = ident s, username = username s, token = token s,
          expiresAt = time_Unix (Time_Unix (expiresAt s)), createdAt = now,
          lastUsed = time_Unix (Time_Unix (lastUsed s))\<rparr>"
  using NewSessionID_valid[OF assms]
  by (simp add: dataToSession_def SessionData_of_def NewSession_def UpdateLastUsedAt_def)

lemma time_Unix_Unix: "time_Unix (Time_Unix t) = t - t mod Second"
  by (simp add: time_Unix_def Time_Unix_def minus_mod_eq_div_mult)

text \<open>
  C1, as amended. Let the session have a valid id, let no system call of \<open>Save\<close> and
  \<open>GetByID\<close> fail on its record, let the path of the record not be taken by something
  that is no regular file, and let the JSON decoder read back the record the encoder
  wrote. Then \<open>Save\<close> succeeds, and \<open>GetByID\<close> on the id succeeds after it and returns
  a session with the same id, user name and token, whose expiry and time of last use
  are those of the session saved in whole seconds (rounded down: \<open>time_Unix_Unix\<close>).
\<close>

theorem Save_then_GetByID:
  assumes "SessionID_IsValid (ident s)"
    and "\<not> fails env OpMkdirAll SessionsDir"
    and "\<not> fails env OpCreate (SessionFile (id_value (ident s)))"
    and "\<not> fails env OpWrite (SessionFile (id_value (ident s)))"
    and "\<not> fails env OpOpen (SessionFile (id_value (ident s)))"
    and "\<not> fails env OpRead (SessionFile (id_value (ident s)))"
    and "lookup fs (SessionFile (id_value (ident s))) \<noteq> Some NotRegular"
    and "json_Decode env (json_Encode env (SessionData_of s)) = Some (SessionData_of s)"
  shows "fst (Save env s fs) = None
     \<and> (case GetByID env now (ident s) (snd (Save env s fs)) of
          Inl e \<Rightarrow> False
        | Inr s' \<Rightarrow>
            ident s' = ident s \<and> username s' = username s \<and> token s' = token s
            \<and> expiresAt s' = time_Unix (Time_Unix (expiresAt s))
            \<and> lastUsed s' = time_Unix (Time_Unix (lastUsed s)))"
proof -
  from assms(1) have ne: "id_value (ident s) \<noteq> []" by (simp add: SessionID_IsValid_def)
  from ne assms(2,3,4,7) have ok: "fst (Save env s fs) = None" by (rule Save_success_I)
  then have "Save env s fs = (None, snd (Save env s fs))" by (simp add: prod_eq_iff)
  from Save_success_D[OF this]
  obtain m where f: "lookup (snd (Save env s fs)) (SessionFile (id_value (ident s)))
      = Some (RegularFile \<lparr>content = json_Encode env (SessionData_of s), perm = m\<rparr>)"
    by blast
  have "json_Decode env (content \<lparr>content = json_Encode env (SessionData_of s), perm = m\<rparr>)
      = Some (SessionData_of s)"
    using assms(8) by simp
  from GetByID_loaded[OF f ne assms(5,6) this]
  have "GetByID env now (ident s) (snd (Save env s fs)) =
     Inr \<lparr>ident = ident s, username = username s, token = token s,
          expiresAt = time_Unix (Time_Unix (expiresAt s)), createdAt = now,
          lastUsed = time_Unix (Time_Unix (lastUsed s))\<rparr>"
    by (simp add: dataToSession_of[OF assms(1)])
  with ok show ?thesis by simp
qed

lemma alice_valid: "SessionID_IsValid (ident alice)"
  by (simp add: alice_def SessionID_IsValid_def isValidSessionIDFormat_def
      sessionIDPattern_MatchString_def hexClass_def)

lemma alice_data: "SessionData_of alice = alice_data"
  by (simp add: SessionData_of_def alice_def alice_data_def SessionID_String_def
      Time_Unix_def Second_def)

theorem Save_then_GetByID_witness:
  "fst (Save no_faults alice empty_fs) = None
   \<and> (case GetByID no_faults 5000000000 (ident alice) (snd (Save no_faults alice empty_fs)) of
        Inl e \<Rightarrow> False
      | Inr s' \<Rightarrow>
          ident s' = ident alice \<and> username s' = username alice \<and> token s' = token alice
          \<and> expiresAt s' = time_Unix (Time_Unix (expiresAt alice))
          \<and> lastUsed s' = time_Unix (Time_Unix (lastUsed alice)))"
proof (rule Save_then_GetByID)
  show "SessionID_IsValid (ident alice)" by (rule alice_valid)
  show "lookup empty_fs (SessionFile (id_value (ident alice))) \<noteq> Some NotRegular"
    by (simp add: lookup_def empty_fs_def)
  show "json_Decode no_faults (json_Encode no_faults (SessionData_of alice))
      = Some (SessionData_of alice)"
    by (simp add: alice_data no_faults_def table_Encode_def table_Decode_def)
qed (simp_all add: no_faults_def)

text \<open>
  The claim as it was written fails on the time stamps: a session that expires one and
  a half seconds after the epoch comes back expiring one second after it.
\<close>

theorem Save_then_GetByID_timestamps_counterexample:
  "fst (Save no_faults alice empty_fs) = None
   \<and> GetByID no_faults 5000000000 (ident alice) (snd (Save no_faults alice empty_fs))
      = Inr \<lparr>ident = ident alice, username = ''alice'', token = ''tok'',
             expiresAt = 1000000000, createdAt = 5000000000, lastUsed = 0\<rparr>
   \<and> expiresAt alice = 1500000000 \<and> lastUsed alice = 700000000"
proof -
  have s: "Save no_faults alice empty_fs =
      (None, \<lparr>sessionsDir = Some [(''0123456789abcdef0123456789abcdef'',
                 RegularFile \<lparr>content = alice_json, perm = mode_0600\<rparr>)],
              currentFile = None\<rparr>)"
    by (simp add: Save_def no_faults_def alice_def empty_fs_def ensureConfigDir_def
        os_MkdirAll_def getSessionFilePath_def SessionID_String_def os_Create_def
        os_Write_def os_Chmod_def Let_def table_Encode_def alice_data_def Time_Unix_def
        Second_def)
  have d: "dataToSession 5000000000 alice_data
      = Inr \<lparr>ident = ident alice, username = ''alice'', token = ''tok'',
             expiresAt = 1000000000, createdAt = 5000000000, lastUsed = 0\<rparr>"
    by (simp add: dataToSession_def alice_data_def NewSessionID_alice NewSession_def
        UpdateLastUsedAt_def time_Unix_def Second_def alice_def)
  have "GetByID no_faults 5000000000 (ident alice)
         \<lparr>sessionsDir = Some [(''0123456789abcdef0123456789abcdef'',
                 RegularFile \<lparr>content = alice_json, perm = mode_0600\<rparr>)],
          currentFile = None\<rparr>
      = Inr \<lparr>ident = ident alice, username = ''alice'', token = ''tok'',
             expiresAt = 1000000000, createdAt = 5000000000, lastUsed = 0\<rparr>"
    by (simp add: GetByID_def getSessionFilePath_def SessionID_String_def os_Stat_def
        os_Open_def Decode_def lookup_def no_faults_def table_Decode_def d Let_def alice_def)
  with s show ?thesis by (simp add: alice_def)
qed

text \<open>
  C6, as amended. When \<open>Save\<close> returns success, the record of the session is a regular
  file that holds the encoded session. Its mode is exactly 0600 when \<^verbatim>\<open>os.Chmod\<close> did
  not fail. A failure of \<^verbatim>\<open>os.Chmod\<close> is logged as a warning only: \<open>Save\<close> succeeds all
  the same, and the mode is the one \<^verbatim>\<open>os.Create\<close> left.
\<close>

theorem Save_mode_owner_only:
  assumes "Save env s fs = (None, fs')"
  shows "case lookup fs' (getSessionFilePath (ident s)) of
           Some (RegularFile f') \<Rightarrow>
             content f' = json_Encode env (SessionData_of s)
             \<and> (\<not> fails env OpChmod (getSessionFilePath (ident s)) \<longrightarrow> perm f' = mode_0600)
             \<and> (fails env OpChmod (getSessionFilePath (ident s)) \<longrightarrow>
                  perm f' = mode_after_Create env fs (getSessionFilePath (ident s)))
         | _ \<Rightarrow> False"
proof -
  from Save_success_D[OF assms]
  have ne: "id_value (ident s) \<noteq> []"
    and f: "lookup fs' (SessionFile (id_value (ident s)))
        = Some (RegularFile \<lparr>content = json_Encode env (SessionData_of s),
              perm = (if fails env OpChmod (SessionFile (id_value (ident s)))
                      then mode_after_Create env fs (SessionFile (id_value (ident s)))
                      else mode_0600)\<rparr>)"
    by blast+
  from ne have "getSessionFilePath (ident s) = SessionFile (id_value (ident s))"
    by (simp add: getSessionFilePath_def SessionID_String_def)
  with f show ?thesis by simp
qed

theorem Save_mode_owner_only_witness:
  "lookup \<lparr>sessionsDir = Some [(''0123456789abcdef0123456789abcdef'',
                 RegularFile \<lparr>content = alice_json, perm = mode_0600\<rparr>)],
           currentFile = None\<rparr> (getSessionFilePath (ident alice))
     = Some (RegularFile \<lparr>content = alice_json, perm = mode_0600\<rparr>)
   \<and> Save no_faults alice empty_fs =
      (None, \<lparr>sessionsDir = Some [(''0123456789abcdef0123456789abcdef'',
                 RegularFile \<lparr>content = alice_json, perm = mode_0600\<rparr>)],
              currentFile = None\<rparr>)"
proof -
  have s: "Save no_faults alice empty_fs =
      (None, \<lparr>sessionsDir = Some [(''0123456789abcdef0123456789abcdef'',
                 RegularFile \<lparr>content = alice_json, perm = mode_0600\<rparr>)],
              currentFile = None\<rparr>)"
    by (simp add: Save_def no_faults_def alice_def empty_fs_def ensureConfigDir_def
        os_MkdirAll_def getSessionFilePath_def SessionID_String_def os_Create_def
        os_Write_def os_Chmod_def Let_def table_Encode_def alice_data_def Time_Unix_def
        Second_def)
  from Save_mode_owner_only[OF s] s show ?thesis
    by (simp add: lookup_def getSessionFilePath_def SessionID_String_def alice_def)
qed

text \<open>
  The claim as it was written fails where \<^verbatim>\<open>os.Chmod\<close> fails (the file belongs to
  another account, or the file system has no modes): \<open>Save\<close> returns success and the
  new record has the mode 0644, which is 0666 less the mask 022.
\<close>

theorem Save_mode_chmod_fails_counterexample:
  "fst (Save chmod_denied alice empty_fs) = None
   \<and> lookup (snd (Save chmod_denied alice empty_fs))
        (SessionFile ''0123456789abcdef0123456789abcdef'')
      = Some (RegularFile \<lparr>content = alice_json, perm = 0x1A4\<rparr>)
   \<and> (0x1A4 :: FileMode) \<noteq> mode_0600"
  by (simp add: Save_def chmod_denied_def no_faults_def alice_def empty_fs_def
      ensureConfigDir_def os_MkdirAll_def getSessionFilePath_def SessionID_String_def
      os_Create_def os_Write_def os_Chmod_def lookup_def Let_def table_Encode_def
      alice_data_def Time_Unix_def Second_def mode_0666_def mode_0600_def)

section \<open>LocalSessionRepository: the deleting loops\<close>
















section \<open>AOJAuthRepository\<close>

lemma nibble_hi: "unat (drop_bit 4 (v :: 8 word)) < 16"
proof -
  have "unat v < 2 ^ LENGTH(8)" by (rule unsigned_less)
  then have "unat v < 256" by simp
  then show ?thesis by (simp add: drop_bit_eq_div unat_div)
qed

lemma nibble_lo: "unat ((v :: 8 word) AND 0x0F) < 16"
proof -
  have "v AND 0x0F \<le> 0x0F" by (rule word_and_le1)
  then have "unat (v AND 0x0F) \<le> unat (0x0F :: 8 word)" by (simp add: word_le_nat_alt)
  then show ?thesis by simp
qed

lemma hextable_hex: "n < 16 \<Longrightarrow> hexClass (hextable ! n)"
proof -
  assume "n < 16"
  then have "n \<in> set [0..<16]" by simp
  moreover have "list_all (\<lambda>n. hexClass (hextable ! n)) [0..<16]"
    by code_simp
  ultimately show ?thesis by (simp only: list_all_iff)
qed

lemma hex_EncodeToString_props:
  "length (hex_EncodeToString bs) = 2 * length bs \<and> list_all hexClass (hex_EncodeToString bs)"
  by (induction bs) (simp_all add: hex_EncodeToString_def nibble_hi nibble_lo hextable_hex)

text \<open>A generated id is 64 hexadecimal characters, so it is a valid id.\<close>

lemma GenerateSessionID_valid:
  assumes "GenerateSessionID rnd = Inr i"
  shows "length (id_value i) = 64 \<and> SessionID_IsValid i"
proof -
  from assms obtain bs where i: "i = \<lparr>id_value = hex_EncodeToString (take 32 (bs @ replicate 32 0))\<rparr>"
    by (auto simp: GenerateSessionID_def Let_def split: option.splits)
  have l: "length (take 32 (bs @ replicate 32 (0 :: 8 word))) = 32" by simp
  from hex_EncodeToString_props[of "take 32 (bs @ replicate 32 0)"] l
  have "length (id_value i) = 64" and "list_all hexClass (id_value i)"
    unfolding i by simp_all
  then show ?thesis
    by (auto simp: SessionID_IsValid_def isValidSessionIDFormat_def
        sessionIDPattern_MatchString_def)
qed

lemma hex_zero': "hex_EncodeToString (replicate 32 0) = zeros64"
  unfolding zeros64_def by code_simp

lemma GenerateSessionID_cases:
  "GenerateSessionID rnd =
     (case rnd 32 of
        None \<Rightarrow> Inl (Wrap (Plain ''rand.Read'') ''failed to generate random session ID'')
      | Some bs \<Rightarrow> Inr \<lparr>id_value = hex_EncodeToString (take 32 (bs @ replicate 32 0))\<rparr>)"
  by (simp add: GenerateSessionID_def Let_def split: option.splits)

text \<open>
  C8, as amended. When the request can be made, \<open>Login\<close> maps what comes back as
  follows: a transport failure gives an error of kind NetworkError; the status 401
  gives Unauthorized, 400 InvalidInput, 500 ServiceUnavailable, and every status
  other than these and 200 gives InternalServer. The status 200 gives a new session
  (a generated id, the user id and the token of the response, 24 hours from now)
  when the body decodes and an id can be generated; when the body does not decode, or
  the random source fails, it gives an error that carries no kind.
\<close>

theorem Login_outcome_mapping:
  assumes "\<not> NewRequest_fails net ''POST'' (baseURL @ ''/session'')"
  shows "case Do net (loginRequest baseURL uname password) of
     None \<Rightarrow>
       (\<exists>e. Login net baseURL now uname password = Inl e \<and> GetErrorCode e = CodeNetworkError)
   | Some resp \<Rightarrow>
       (if StatusCode resp = 200 then
          (case json_Decode_LoginResponse net (Body resp) of
             None \<Rightarrow>
               (\<exists>e. Login net baseURL now uname password = Inl e \<and> GetErrorCode e = [])
           | Some loginResp \<Rightarrow>
               (case rand_Read net 32 of
                  None \<Rightarrow>
                    (\<exists>e. Login net baseURL now uname password = Inl e \<and> GetErrorCode e = [])
                | Some bs \<Rightarrow>
                    Login net baseURL now uname password =
                      Inr \<lparr>ident = \<lparr>id_value =
                               hex_EncodeToString (take 32 (bs @ replicate 32 0))\<rparr>,
                           username = resp_ID loginResp, token = resp_Token loginResp,
                           expiresAt = now + 24 * Hour, createdAt = now, lastUsed = now\<rparr>))
        else
          (\<exists>e. Login net baseURL now uname password = Inl e
             \<and> GetErrorCode e =
                 (if StatusCode resp = 401 then CodeUnauthorized
                  else if StatusCode resp = 400 then CodeInvalidInput
                  else if StatusCode resp = 500 then CodeServiceUnavailable
                  else CodeInternalServer)))"
proof (cases "Do net (loginRequest baseURL uname password)")
  case None
  with assms show ?thesis
    by (simp add: Login_def Let_def loginRequest_def GetErrorCode_NewAppError)
next
  case (Some resp)
  show ?thesis
  proof (cases "StatusCode resp = 200")
    case True
    with assms Some
    have "Login net baseURL now uname password = parseLoginResponse net now resp"
      by (simp add: Login_def Let_def loginRequest_def StatusOK_def)
    with Some True show ?thesis
      by (simp add: parseLoginResponse_def GenerateSessionID_cases GetErrorCode_Wrap
          GetErrorCode_Plain NewSessionWithDuration_def Time_Add_def
          split: option.splits)
  next
    case False
    with assms Some show ?thesis
      by (simp add: Login_def Let_def loginRequest_def StatusOK_def StatusUnauthorized_def
          StatusBadRequest_def StatusInternalServerError_def GetErrorCode_NewAppError)
  qed
qed

theorem Login_outcome_mapping_witness:
  "Login (answering 200) ''https://judgeapi.u-aizu.ac.jp'' 7 ''alice'' ''secret''
     = Inr \<lparr>ident = \<lparr>id_value = zeros64\<rparr>, username = ''alice'', token = ''tok'',
            expiresAt = 7 + 24 * Hour, createdAt = 7, lastUsed = 7\<rparr>"
proof -
  have 1: "\<not> NewRequest_fails (answering 200) ''POST'' (''https://judgeapi.u-aizu.ac.jp'' @ ''/session'')"
    by (simp add: answering_def)
  from Login_outcome_mapping[OF 1, where uname = "''alice''" and password = "''secret''"
      and now = 7]
  show ?thesis by (simp add: answering_def hex_zero' loginRequest_def)
qed

text \<open>
  The claim as it was written fails on a response with the status 200 whose body is
  no JSON: the login does not succeed.
\<close>

theorem Login_status_200_counterexample:
  "Do answering_garbage (loginRequest ''https://judgeapi.u-aizu.ac.jp'' ''alice'' ''secret'')
     = Some \<lparr>StatusCode = 200, Body = ''<html>''\<rparr>
   \<and> Login answering_garbage ''https://judgeapi.u-aizu.ac.jp'' 7 ''alice'' ''secret''
     = Inl (Wrap (Plain ''json'') ''failed to decode login response'')"
  by (simp add: Login_def Let_def answering_garbage_def StatusOK_def parseLoginResponse_def)

lemma ValidateSession_reads_only:
  "ValidateSession net baseURL now s =
     (if now > expiresAt s then Inr False
      else if NewRequest_fails net ''GET'' (baseURL @ ''/user/'' @ username s) then
        Inl (Wrap (Plain ''net/http'') ''failed to create validation request'')
      else (case Do net \<lparr>req_Method = ''GET'', req_URL = baseURL @ ''/user/'' @ username s,
                         req_Header = [(''Authorization'', ''Bearer '' @ token s)],
                         req_Payload = None\<rparr> of
              None \<Rightarrow> Inl (NewAppError CodeNetworkError ''failed to validate session with AOJ''
                             (Some (Plain ''net/http'')))
            | Some resp \<Rightarrow> Inr (StatusCode resp = 200)))"
  by (simp add: ValidateSession_def IsExpired_def Time_After_def Let_def StatusOK_def
      split: option.splits)

text \<open>
  C7, as amended. \<open>RefreshSession\<close> on a session of the store calls \<open>ValidateSession\<close>
  first. When that returns an error, the error comes back wrapped (its kind is
  kept); when it says the session is not valid, the result is an error of kind
  Unauthorized; in both cases the store is as before. When it says the session is
  valid, and the random source gives bytes, the result is a new object of the store,
  at an address that was free, with the id these bytes encode, the user name and the
  token of the input, and an expiry 24 hours after the clock; when the random source
  fails the result is an error. In every case each session that was in the store,
  the input among them, is unchanged.
\<close>

theorem RefreshSession_new_session_input_unchanged:
  assumes "p < length h"
  shows "case RefreshSession net baseURL now now' p h of
     None \<Rightarrow> False
   | Some (res, h') \<Rightarrow>
       take (length h) h' = h \<and> h' ! p = h ! p
       \<and> (case ValidateSession net baseURL now (h ! p) of
            Inl err \<Rightarrow>
              res = Inl (Wrap err ''failed to validate session for refresh'') \<and> h' = h
          | Inr isValid \<Rightarrow>
              if \<not> isValid then
                res = Inl (NewAppError CodeUnauthorized ''session is no longer valid'' None)
                \<and> GetErrorCode (NewAppError CodeUnauthorized ''session is no longer valid'' None)
                    = CodeUnauthorized
                \<and> h' = h
              else
                (case rand_Read net 32 of
                   None \<Rightarrow> (\<exists>e. res = Inl e) \<and> h' = h
                 | Some bs \<Rightarrow>
                     res = Inr (length h) \<and> length h \<noteq> p
                     \<and> h' = h @ [\<lparr>ident = \<lparr>id_value =
                                      hex_EncodeToString (take 32 (bs @ replicate 32 0))\<rparr>,
                                  username = username (h ! p), token = token (h ! p),
                                  expiresAt = now' + 24 * Hour, createdAt = now',
                                  lastUsed = now'\<rparr>]))"
  using assms
  by (simp add: RefreshSession_def GenerateSessionID_cases new_Session_def
      NewSessionWithDuration_def Time_Add_def GetErrorCode_NewAppError nth_append
      split: sum.splits option.splits)

theorem RefreshSession_new_session_input_unchanged_witness:
  "RefreshSession (answering 200) [] 0 5 0 [zero_session]
     = Some (Inr 1, [zero_session,
          \<lparr>ident = \<lparr>id_value = zeros64\<rparr>, username = ''alice'', token = ''tok'',
           expiresAt = 5 + 24 * Hour, createdAt = 5, lastUsed = 5\<rparr>])"
proof -
  have 1: "(0::nat) < length [zero_session]" by simp
  have v: "ValidateSession (answering 200) [] 0 zero_session = Inr True"
    by (simp add: ValidateSession_reads_only zero_session_def answering_def)
  from RefreshSession_new_session_input_unchanged[OF 1, where net = "answering 200"
      and baseURL = "[]" and now = 0 and now' = 5] v
  show ?thesis
    by (auto simp: answering_def hex_zero' zero_session_def split: option.splits)
qed

text \<open>
  The claim as it was written fails where the random source gives the bytes of the
  old id: the new session has the id of the input.
\<close>

theorem RefreshSession_same_id_counterexample:
  "RefreshSession (answering 200) [] 0 5 0 [zero_session]
     = Some (Inr 1, [zero_session,
          \<lparr>ident = ident zero_session, username = ''alice'', token = ''tok'',
           expiresAt = 5 + 24 * Hour, createdAt = 5, lastUsed = 5\<rparr>])"
proof -
  have v: "ValidateSession (answering 200) [] 0 zero_session = Inr True"
    by (simp add: ValidateSession_reads_only zero_session_def answering_def)
  have g: "GenerateSessionID (rand_Read (answering 200)) = Inr \<lparr>id_value = zeros64\<rparr>"
    by (simp add: GenerateSessionID_cases answering_def hex_zero')
  show ?thesis
    by (simp add: RefreshSession_def v g new_Session_def NewSessionWithDuration_def
        Time_Add_def, simp add: zero_session_def)
qed

section \<open>LoginUseCase\<close>

lemma validateRequest_code:
  "validateRequest request = Some e \<Longrightarrow> GetErrorCode e = CodeInvalidInput"
  by (auto simp: validateRequest_def GetErrorCode_NewAppError split: if_splits)

lemma validateRequest_empty:
  "Username request = [] \<or> Password request = [] \<Longrightarrow> validateRequest request \<noteq> None"
  by (auto simp: validateRequest_def TrimSpace_Nil)

lemma Execute_invalid:
  "validateRequest request = Some e \<Longrightarrow> Execute uc request w = (Inl e, w, [])"
  by (simp add: Execute_def)

lemma Execute_login_fails:
  assumes "validateRequest request = None"
    and "authRepo_Login uc (Username request) (Password request) w = (Inl e, w1)"
  shows "Execute uc request w =
     (Inl (Wrap e ''authentication failed''), w1,
      [Call_Login (Username request) (Password request)])"
  using assms by (simp add: Execute_def)

lemma Execute_save_fails:
  assumes "validateRequest request = None"
    and "authRepo_Login uc (Username request) (Password request) w = (Inr s, w1)"
    and "sessionRepo_Save uc s w1 = (Some e, w2)"
  shows "Execute uc request w =
     (Inl (Wrap e ''failed to save session''), w2,
      [Call_Login (Username request) (Password request), Call_Save s])"
  using assms by (simp add: Execute_def)

lemma Execute_setCurrent_fails:
  assumes "validateRequest request = None"
    and "authRepo_Login uc (Username request) (Password request) w = (Inr s, w1)"
    and "sessionRepo_Save uc s w1 = (None, w2)"
    and "sessionRepo_SetCurrent uc s w2 = (Some e, w3)"
  shows "Execute uc request w =
     (Inl (Wrap e ''failed to set current session''), w3,
      [Call_Login (Username request) (Password request), Call_Save s, Call_SetCurrent s])"
  using assms by (simp add: Execute_def)

lemma Execute_succeeds:
  assumes "validateRequest request = None"
    and "authRepo_Login uc (Username request) (Password request) w = (Inr s, w1)"
    and "sessionRepo_Save uc s w1 = (None, w2)"
    and "sessionRepo_SetCurrent uc s w2 = (None, w3)"
  shows "Execute uc request w =
     (Inr \<lparr>Success = True, Response_Username = username s,
           Response_SessionID = SessionID_String (ident s), Message = ''Login successful''\<rparr>,
      w3,
      [Call_Login (Username request) (Password request), Call_Save s, Call_SetCurrent s])"
  using assms by (simp add: Execute_def)

text \<open>What the calls made say about the steps before them.\<close>

lemma Execute_calls:
  assumes "Execute uc request w = (res, w', calls)"
  shows "(\<forall>s. Call_Save s \<in> set calls \<longrightarrow>
            validateRequest request = None
            \<and> (\<exists>w1. authRepo_Login uc (Username request) (Password request) w = (Inr s, w1)))
       \<and> (\<forall>s. Call_SetCurrent s \<in> set calls \<longrightarrow>
            Call_Save s \<in> set calls
            \<and> (\<exists>w1 w2. authRepo_Login uc (Username request) (Password request) w = (Inr s, w1)
                 \<and> sessionRepo_Save uc s w1 = (None, w2)
                 \<and> w' = snd (sessionRepo_SetCurrent uc s w2)))
       \<and> (\<forall>u p. Call_Login u p \<in> set calls \<longrightarrow>
            validateRequest request = None \<and> u = Username request \<and> p = Password request)"
  using assms
  by (auto simp: Execute_def split: option.splits prod.splits sum.splits)

lemma Execute_no_SetCurrent:
  assumes "Execute uc request w = (res, w', calls)"
    and "\<forall>s. Call_SetCurrent s \<notin> set calls"
  shows "w' = w
     \<or> w' = snd (authRepo_Login uc (Username request) (Password request) w)
     \<or> (\<exists>s w1. authRepo_Login uc (Username request) (Password request) w = (Inr s, w1)
          \<and> w' = snd (sessionRepo_Save uc s w1))"
  using assms
  by (auto simp: Execute_def split: option.splits prod.splits sum.splits)

lemma Save_keeps_pointer: "currentFile (snd (Save env s fs)) = currentFile fs"
  unfolding Save_def ensureConfigDir_def os_MkdirAll_def getSessionFilePath_def
    SessionID_String_def os_Create_def os_Write_def os_Chmod_def Let_def
  by (auto split: option.splits sum.splits dirent.splits if_splits path.splits)

lemma SetCurrent_keeps_records:
  "lookup (snd (SetCurrent env s fs)) (SessionFile n) = lookup fs (SessionFile n)"
  unfolding SetCurrent_def ensureConfigDir_def os_MkdirAll_def os_WriteFile_def
    getCurrentSessionFilePath_def lookup_def
  by (auto split: option.splits sum.splits if_splits)

lemma Execute_outcomes_SetCurrent:
  assumes "Execute uc request w = (res, w', calls)"
    and "validateRequest request = None"
    and "authRepo_Login uc (Username request) (Password request) w = (Inr s, w1)"
    and "sessionRepo_Save uc s w1 = (None, w2)"
  shows "(\<forall>e w3. sessionRepo_SetCurrent uc s w2 = (Some e, w3) \<longrightarrow>
            res = Inl (Wrap e ''failed to set current session'') \<and> w' = w3
            \<and> calls = [Call_Login (Username request) (Password request),
                       Call_Save s, Call_SetCurrent s])
     \<and> (\<forall>w3. sessionRepo_SetCurrent uc s w2 = (None, w3) \<longrightarrow>
            res = Inr \<lparr>Success = True, Response_Username = username s,
                       Response_SessionID = SessionID_String (ident s),
                       Message = ''Login successful''\<rparr>
            \<and> w' = w3
            \<and> calls = [Call_Login (Username request) (Password request),
                       Call_Save s, Call_SetCurrent s])"
proof (rule conjI; intro allI impI)
  fix e w3 assume "sessionRepo_SetCurrent uc s w2 = (Some e, w3)"
  from Execute_setCurrent_fails[OF assms(2,3,4) this] assms(1)
  show "res = Inl (Wrap e ''failed to set current session'') \<and> w' = w3
            \<and> calls = [Call_Login (Username request) (Password request),
                       Call_Save s, Call_SetCurrent s]"
    by simp
next
  fix w3 assume "sessionRepo_SetCurrent uc s w2 = (None, w3)"
  from Execute_succeeds[OF assms(2,3,4) this] assms(1)
  show "res = Inr \<lparr>Success = True, Response_Username = username s,
                       Response_SessionID = SessionID_String (ident s),
                       Message = ''Login successful''\<rparr>
            \<and> w' = w3
            \<and> calls = [Call_Login (Username request) (Password request),
                       Call_Save s, Call_SetCurrent s]"
    by simp
qed

lemma Execute_outcomes_Save:
  assumes "Execute uc request w = (res, w', calls)"
    and "validateRequest request = None"
    and "authRepo_Login uc (Username request) (Password request) w = (Inr s, w1)"
  shows "(\<forall>e w2. sessionRepo_Save uc s w1 = (Some e, w2) \<longrightarrow>
            res = Inl (Wrap e ''failed to save session'') \<and> w' = w2
            \<and> calls = [Call_Login (Username request) (Password request), Call_Save s])
     \<and> (\<forall>w2. sessionRepo_Save uc s w1 = (None, w2) \<longrightarrow>
          (\<forall>e w3. sessionRepo_SetCurrent uc s w2 = (Some e, w3) \<longrightarrow>
             res = Inl (Wrap e ''failed to set current session'') \<and> w' = w3
             \<and> calls = [Call_Login (Username request) (Password request),
                        Call_Save s, Call_SetCurrent s])
          \<and> (\<forall>w3. sessionRepo_SetCurrent uc s w2 = (None, w3) \<longrightarrow>
               res = Inr \<lparr>Success = True, Response_Username = username s,
                          Response_SessionID = SessionID_String (ident s),
                          Message = ''Login successful''\<rparr>
               \<and> w' = w3
               \<and> calls = [Call_Login (Username request) (Password request),
                          Call_Save s, Call_SetCurrent s]))"
proof (rule conjI; intro allI impI)
  fix e w2 assume "sessionRepo_Save uc s w1 = (Some e, w2)"
  from Execute_save_fails[OF assms(2,3) this] assms(1)
  show "res = Inl (Wrap e ''failed to save session'') \<and> w' = w2
            \<and> calls = [Call_Login (Username request) (Password request), Call_Save s]"
    by simp
next
  fix w2 assume "sessionRepo_Save uc s w1 = (None, w2)"
  then show "(\<forall>e w3. sessionRepo_SetCurrent uc s w2 = (Some e, w3) \<longrightarrow>
             res = Inl (Wrap e ''failed to set current session'') \<and> w' = w3
             \<and> calls = [Call_Login (Username request) (Password request),
                        Call_Save s, Call_SetCurrent s])
          \<and> (\<forall>w3. sessionRepo_SetCurrent uc s w2 = (None, w3) \<longrightarrow>
               res = Inr \<lparr>Success = True, Response_Username = username s,
                          Response_SessionID = SessionID_String (ident s),
                          Message = ''Login successful''\<rparr>
               \<and> w' = w3
               \<and> calls = [Call_Login (Username request) (Password request),
                          Call_Save s, Call_SetCurrent s])"
    by (rule Execute_outcomes_SetCurrent[OF assms])
qed

lemma Execute_outcomes:
  assumes "Execute uc request w = (res, w', calls)"
    and "validateRequest request = None"
  shows "(\<forall>e w1. authRepo_Login uc (Username request) (Password request) w = (Inl e, w1) \<longrightarrow>
             res = Inl (Wrap e ''authentication failed'') \<and> w' = w1
             \<and> calls = [Call_Login (Username request) (Password request)])
          \<and> (\<forall>s w1. authRepo_Login uc (Username request) (Password request) w = (Inr s, w1) \<longrightarrow>
               (\<forall>e w2. sessionRepo_Save uc s w1 = (Some e, w2) \<longrightarrow>
                  res = Inl (Wrap e ''failed to save session'') \<and> w' = w2
                  \<and> calls = [Call_Login (Username request) (Password request), Call_Save s])
               \<and> (\<forall>w2. sessionRepo_Save uc s w1 = (None, w2) \<longrightarrow>
                    (\<forall>e w3. sessionRepo_SetCurrent uc s w2 = (Some e, w3) \<longrightarrow>
                       res = Inl (Wrap e ''failed to set current session'') \<and> w' = w3
                       \<and> calls = [Call_Login (Username request) (Password request),
                                  Call_Save s, Call_SetCurrent s])
                    \<and> (\<forall>w3. sessionRepo_SetCurrent uc s w2 = (None, w3) \<longrightarrow>
                         res = Inr \<lparr>Success = True, Response_Username = username s,
                                    Response_SessionID = SessionID_String (ident s),
                                    Message = ''Login successful''\<rparr>
                         \<and> w' = w3
                         \<and> calls = [Call_Login (Username request) (Password request),
                                    Call_Save s, Call_SetCurrent s])))"
proof (rule conjI; intro allI impI)
  fix e w1 assume "authRepo_Login uc (Username request) (Password request) w = (Inl e, w1)"
  from Execute_login_fails[OF assms(2) this] assms(1)
  show "res = Inl (Wrap e ''authentication failed'') \<and> w' = w1
             \<and> calls = [Call_Login (Username request) (Password request)]"
    by simp
next
  fix s w1 assume "authRepo_Login uc (Username request) (Password request) w = (Inr s, w1)"
  then show "(\<forall>e w2. sessionRepo_Save uc s w1 = (Some e, w2) \<longrightarrow>
                  res = Inl (Wrap e ''failed to save session'') \<and> w' = w2
                  \<and> calls = [Call_Login (Username request) (Password request), Call_Save s])
               \<and> (\<forall>w2. sessionRepo_Save uc s w1 = (None, w2) \<longrightarrow>
                    (\<forall>e w3. sessionRepo_SetCurrent uc s w2 = (Some e, w3) \<longrightarrow>
                       res = Inl (Wrap e ''failed to set current session'') \<and> w' = w3
                       \<and> calls = [Call_Login (Username request) (Password request),
                                  Call_Save s, Call_SetCurrent s])
                    \<and> (\<forall>w3. sessionRepo_SetCurrent uc s w2 = (None, w3) \<longrightarrow>
                         res = Inr \<lparr>Success = True, Response_Username = username s,
                                    Response_SessionID = SessionID_String (ident s),
                                    Message = ''Login successful''\<rparr>
                         \<and> w' = w3
                         \<and> calls = [Call_Login (Username request) (Password request),
                                    Call_Save s, Call_SetCurrent s]))"
    by (rule Execute_outcomes_Save[OF assms])
qed

lemma local_Save: "sessionRepo_Save (localLoginUseCase env net baseURL now) = Save env"
  by (simp add: localLoginUseCase_def)

lemma local_SetCurrent:
  "sessionRepo_SetCurrent (localLoginUseCase env net baseURL now) = SetCurrent env"
  by (simp add: localLoginUseCase_def)

lemma local_Login:
  "authRepo_Login (localLoginUseCase env net baseURL now) u p fs
     = (Login net baseURL now u p, fs)"
  by (simp add: localLoginUseCase_def)

text \<open>
  C2. \<open>Execute\<close> validates the request, then calls \<open>Login\<close>, \<open>Save\<close> and
  \<open>SetCurrent\<close> in this order, and stops at the first step that fails. With an empty
  user name or password it fails with InvalidInput, calls nothing and leaves the
  state alone. When \<open>Login\<close> fails, its error comes back wrapped and the one call made
  is the login. When \<open>Save\<close> fails, its error comes back wrapped and \<open>SetCurrent\<close> is
  not called. When \<open>SetCurrent\<close> fails after \<open>Save\<close> succeeded, its error comes back
  wrapped and the state is the one \<open>SetCurrent\<close> left: nothing undoes the \<open>Save\<close>.
  Whatever the outcome, \<open>Save\<close> is only called on the session \<open>Login\<close> returned, and
  \<open>SetCurrent\<close> only on a session that \<open>Save\<close> has saved with success.

  With the local repository in the place of the interface: when \<open>SetCurrent\<close> was
  called, whether it failed or not, the record of the session is in the sessions
  directory afterwards; when it was not called, the pointer file is as before.
\<close>

theorem Execute_steps_abort:
  assumes "Execute uc request w = (res, w', calls)"
    and "Execute (localLoginUseCase env net baseURL now) request fs = (res\<^sub>l, fs', calls\<^sub>l)"
  shows "(Username request = [] \<or> Password request = [] \<longrightarrow>
            (\<exists>e. res = Inl e \<and> GetErrorCode e = CodeInvalidInput) \<and> calls = [] \<and> w' = w)
     \<and> (validateRequest request = None \<longrightarrow>
          (\<forall>e w1. authRepo_Login uc (Username request) (Password request) w = (Inl e, w1) \<longrightarrow>
             res = Inl (Wrap e ''authentication failed'') \<and> w' = w1
             \<and> calls = [Call_Login (Username request) (Password request)])
          \<and> (\<forall>s w1. authRepo_Login uc (Username request) (Password request) w = (Inr s, w1) \<longrightarrow>
               (\<forall>e w2. sessionRepo_Save uc s w1 = (Some e, w2) \<longrightarrow>
                  res = Inl (Wrap e ''failed to save session'') \<and> w' = w2
                  \<and> calls = [Call_Login (Username request) (Password request), Call_Save s])
               \<and> (\<forall>w2. sessionRepo_Save uc s w1 = (None, w2) \<longrightarrow>
                    (\<forall>e w3. sessionRepo_SetCurrent uc s w2 = (Some e, w3) \<longrightarrow>
                       res = Inl (Wrap e ''failed to set current session'') \<and> w' = w3
                       \<and> calls = [Call_Login (Username request) (Password request),
                                  Call_Save s, Call_SetCurrent s])
                    \<and> (\<forall>w3. sessionRepo_SetCurrent uc s w2 = (None, w3) \<longrightarrow>
                         res = Inr \<lparr>Success = True, Response_Username = username s,
                                    Response_SessionID = SessionID_String (ident s),
                                    Message = ''Login successful''\<rparr>
                         \<and> w' = w3
                         \<and> calls = [Call_Login (Username request) (Password request),
                                    Call_Save s, Call_SetCurrent s]))))
     \<and> (\<forall>s. Call_Save s \<in> set calls \<longrightarrow>
          (\<exists>w1. authRepo_Login uc (Username request) (Password request) w = (Inr s, w1)))
     \<and> (\<forall>s. Call_SetCurrent s \<in> set calls \<longrightarrow>
          (\<exists>w1 w2. authRepo_Login uc (Username request) (Password request) w = (Inr s, w1)
             \<and> sessionRepo_Save uc s w1 = (None, w2)))
     \<and> (\<forall>s. Call_SetCurrent s \<in> set calls\<^sub>l \<longrightarrow>
          (\<exists>f. lookup fs' (SessionFile (id_value (ident s))) = Some (RegularFile f)
             \<and> content f = json_Encode env (SessionData_of s)))
     \<and> ((\<forall>s. Call_SetCurrent s \<notin> set calls\<^sub>l) \<longrightarrow> currentFile fs' = currentFile fs)"
proof (intro conjI)
  show "Username request = [] \<or> Password request = [] \<longrightarrow>
            (\<exists>e. res = Inl e \<and> GetErrorCode e = CodeInvalidInput) \<and> calls = [] \<and> w' = w"
  proof
    assume "Username request = [] \<or> Password request = []"
    then obtain e where e: "validateRequest request = Some e"
      using validateRequest_empty[of request] by auto
    from Execute_invalid[OF e, of uc w] assms(1) validateRequest_code[OF e]
    show "(\<exists>e. res = Inl e \<and> GetErrorCode e = CodeInvalidInput) \<and> calls = [] \<and> w' = w"
      by simp
  qed
next
  show "validateRequest request = None \<longrightarrow>
          (\<forall>e w1. authRepo_Login uc (Username request) (Password request) w = (Inl e, w1) \<longrightarrow>
             res = Inl (Wrap e ''authentication failed'') \<and> w' = w1
             \<and> calls = [Call_Login (Username request) (Password request)])
          \<and> (\<forall>s w1. authRepo_Login uc (Username request) (Password request) w = (Inr s, w1) \<longrightarrow>
               (\<forall>e w2. sessionRepo_Save uc s w1 = (Some e, w2) \<longrightarrow>
                  res = Inl (Wrap e ''failed to save session'') \<and> w' = w2
                  \<and> calls = [Call_Login (Username request) (Password request), Call_Save s])
               \<and> (\<forall>w2. sessionRepo_Save uc s w1 = (None, w2) \<longrightarrow>
                    (\<forall>e w3. sessionRepo_SetCurrent uc s w2 = (Some e, w3) \<longrightarrow>
                       res = Inl (Wrap e ''failed to set current session'') \<and> w' = w3
                       \<and> calls = [Call_Login (Username request) (Password request),
                                  Call_Save s, Call_SetCurrent s])
                    \<and> (\<forall>w3. sessionRepo_SetCurrent uc s w2 = (None, w3) \<longrightarrow>
                         res = Inr \<lparr>Success = True, Response_Username = username s,
                                    Response_SessionID = SessionID_String (ident s),
                                    Message = ''Login successful''\<rparr>
                         \<and> w' = w3
                         \<and> calls = [Call_Login (Username request) (Password request),
                                    Call_Save s, Call_SetCurrent s])))"
    using Execute_outcomes[OF assms(1)] by (rule impI)
next
  from Execute_calls[OF assms(1)]
  show "\<forall>s. Call_Save s \<in> set calls \<longrightarrow>
          (\<exists>w1. authRepo_Login uc (Username request) (Password request) w = (Inr s, w1))"
    by blast
next
  from Execute_calls[OF assms(1)]
  show "\<forall>s. Call_SetCurrent s \<in> set calls \<longrightarrow>
          (\<exists>w1 w2. authRepo_Login uc (Username request) (Password request) w = (Inr s, w1)
             \<and> sessionRepo_Save uc s w1 = (None, w2))"
    by blast
next
  show "\<forall>s. Call_SetCurrent s \<in> set calls\<^sub>l \<longrightarrow>
          (\<exists>f. lookup fs' (SessionFile (id_value (ident s))) = Some (RegularFile f)
             \<and> content f = json_Encode env (SessionData_of s))"
  proof (intro allI impI)
    fix s assume c: "Call_SetCurrent s \<in> set calls\<^sub>l"
    from Execute_calls[OF assms(2)]
    have "\<forall>s. Call_SetCurrent s \<in> set calls\<^sub>l \<longrightarrow>
            Call_Save s \<in> set calls\<^sub>l
            \<and> (\<exists>w1 w2. authRepo_Login (localLoginUseCase env net baseURL now)
                   (Username request) (Password request) fs = (Inr s, w1)
                 \<and> sessionRepo_Save (localLoginUseCase env net baseURL now) s w1 = (None, w2)
                 \<and> fs' = snd (sessionRepo_SetCurrent (localLoginUseCase env net baseURL now)
                     s w2))"
      by (rule conjunct2[THEN conjunct1])
    with c obtain w1 w2 where sv: "Save env s w1 = (None, w2)"
      and fs': "fs' = snd (SetCurrent env s w2)"
      unfolding local_Save local_SetCurrent by blast
    from Save_success_D[OF sv]
    obtain m where "lookup w2 (SessionFile (id_value (ident s)))
        = Some (RegularFile \<lparr>content = json_Encode env (SessionData_of s), perm = m\<rparr>)"
      by blast
    then have "lookup fs' (SessionFile (id_value (ident s)))
        = Some (RegularFile \<lparr>content = json_Encode env (SessionData_of s), perm = m\<rparr>)"
      unfolding fs' by (simp add: SetCurrent_keeps_records)
    then show "\<exists>f. lookup fs' (SessionFile (id_value (ident s))) = Some (RegularFile f)
             \<and> content f = json_Encode env (SessionData_of s)"
      by simp
  qed
next
  show "(\<forall>s. Call_SetCurrent s \<notin> set calls\<^sub>l) \<longrightarrow> currentFile fs' = currentFile fs"
  proof
    assume "\<forall>s. Call_SetCurrent s \<notin> set calls\<^sub>l"
    from Execute_no_SetCurrent[OF assms(2) this]
    have "fs' = fs
     \<or> fs' = snd (Login net baseURL now (Username request) (Password request), fs)
     \<or> (\<exists>s w1. (Login net baseURL now (Username request) (Password request), fs) = (Inr s, w1)
          \<and> fs' = snd (Save env s w1))"
      unfolding local_Save local_Login .
    then show "currentFile fs' = currentFile fs"
      using Save_keeps_pointer by auto
  qed
qed

lemma TrimSpace_alice: "TrimSpace ''alice'' = ''alice''"
  by code_simp

lemma TrimSpace_secret: "TrimSpace ''secret'' = ''secret''"
  by code_simp

lemma Login_fresh:
  "Login (answering 200) [] 7 ''alice'' ''secret'' = Inr fresh_session"
  by (simp add: Login_def Let_def answering_def StatusOK_def parseLoginResponse_def
      GenerateSessionID_cases hex_zero' NewSessionWithDuration_def Time_Add_def
      fresh_session_def)

lemma Save_fresh: "Save pointer_denied fresh_session empty_fs = (None, saved_fs)"
  by (simp add: Save_def pointer_denied_def no_faults_def fresh_session_def empty_fs_def
      saved_fs_def ensureConfigDir_def os_MkdirAll_def getSessionFilePath_def
      SessionID_String_def os_Create_def os_Write_def os_Chmod_def Let_def table_Encode_def
      alice_data_def Time_Unix_def Second_def Hour_def zeros64_def)

lemma SetCurrent_fresh:
  "SetCurrent pointer_denied fresh_session saved_fs
     = (Some (Wrap (Plain ''write'') ''failed to write current session file''), saved_fs)"
  by (simp add: SetCurrent_def pointer_denied_def no_faults_def saved_fs_def
      ensureConfigDir_def os_MkdirAll_def os_WriteFile_def getCurrentSessionFilePath_def)

theorem Execute_steps_abort_witness:
  "Execute (localLoginUseCase pointer_denied (answering 200) [] 7) alice_request empty_fs
     = (Inl (Wrap (Wrap (Plain ''write'') ''failed to write current session file'')
               ''failed to set current session''),
        saved_fs,
        [Call_Login ''alice'' ''secret'', Call_Save fresh_session,
         Call_SetCurrent fresh_session])
   \<and> lookup saved_fs (SessionFile zeros64)
       = Some (RegularFile \<lparr>content = [], perm = mode_0600\<rparr>)
   \<and> currentFile saved_fs = None"
proof -
  obtain res w' calls where
    E: "Execute (localLoginUseCase pointer_denied (answering 200) [] 7) alice_request empty_fs
          = (res, w', calls)"
    by (cases "Execute (localLoginUseCase pointer_denied (answering 200) [] 7)
          alice_request empty_fs") auto
  have v: "validateRequest alice_request = None"
    by (simp add: validateRequest_def alice_request_def TrimSpace_alice TrimSpace_secret)
  have l: "authRepo_Login (localLoginUseCase pointer_denied (answering 200) [] 7)
             (Username alice_request) (Password alice_request) empty_fs
           = (Inr fresh_session, empty_fs)"
    by (simp add: local_Login alice_request_def Login_fresh)
  have sv: "sessionRepo_Save (localLoginUseCase pointer_denied (answering 200) [] 7)
             fresh_session empty_fs = (None, saved_fs)"
    by (simp add: local_Save Save_fresh)
  have sc: "sessionRepo_SetCurrent (localLoginUseCase pointer_denied (answering 200) [] 7)
             fresh_session saved_fs
           = (Some (Wrap (Plain ''write'') ''failed to write current session file''), saved_fs)"
    by (simp add: local_SetCurrent SetCurrent_fresh)
  note t = Execute_steps_abort[OF E E]
  note x = t[THEN conjunct2, THEN conjunct1, THEN mp, OF v]
  note y = x[THEN conjunct2, THEN spec, THEN spec, THEN mp, OF l]
  note z = y[THEN conjunct2, THEN spec, THEN mp, OF sv]
  note r = z[THEN conjunct1, THEN spec, THEN spec, THEN mp, OF sc]
  from r E have "Execute (localLoginUseCase pointer_denied (answering 200) [] 7)
      alice_request empty_fs
     = (Inl (Wrap (Wrap (Plain ''write'') ''failed to write current session file'')
               ''failed to set current session''),
        saved_fs,
        [Call_Login ''alice'' ''secret'', Call_Save fresh_session,
         Call_SetCurrent fresh_session])"
    by (simp add: alice_request_def)
  moreover have "lookup saved_fs (SessionFile zeros64)
       = Some (RegularFile \<lparr>content = [], perm = mode_0600\<rparr>)"
    by (simp add: saved_fs_def lookup_def)
  moreover have "currentFile saved_fs = None" by (simp add: saved_fs_def)
  ultimately show ?thesis by blast
qed

end
